theory Spec2Isabelle
  imports Complex_Main "HOL-Library.Sublist"
begin

section \<open>JavaScript values\<close>

text \<open>
  The scripts of the accessibility map run in a browser. The values they handle are
  JavaScript values: the filter object, the objects read back from \<open>localStorage\<close>
  with \<open>JSON.parse\<close>, the location records of the REST interface. They are embedded
  as the datatype \<open>jsval\<close>. A number is a double: not-a-number, one of the two
  infinities, or a finite value, which is embedded as the real number it denotes
  (the comparisons \<open>>=\<close> and \<open><=\<close> of doubles are exact, so they are the order of
  the reals on finite values). An object is the list of its own properties in
  insertion order.
\<close>

datatype number = NaN | Finite real | PosInfinity | NegInfinity

datatype jsval =
    JUndefined
  | JNull
  | JBool bool
  | JNum number
  | JStr string
  | JArr "jsval list"
  | JObj "(string \<times> jsval) list"

text \<open>\<open>isNaN\<close>, \<open>>=\<close> and \<open><=\<close> on numbers: every comparison with NaN is false.\<close>

fun isNaN :: "number \<Rightarrow> bool" where
  "isNaN NaN = True"
| "isNaN _ = False"

fun num_ge :: "number \<Rightarrow> number \<Rightarrow> bool" where
  "num_ge NaN _ = False"
| "num_ge _ NaN = False"
| "num_ge (Finite x) (Finite y) = (x \<ge> y)"
| "num_ge PosInfinity _ = True"
| "num_ge _ NegInfinity = True"
| "num_ge (Finite x) PosInfinity = False"
| "num_ge NegInfinity _ = False"

definition num_le :: "number \<Rightarrow> number \<Rightarrow> bool" where
  "num_le a b = num_ge b a"

definition num_gt :: "number \<Rightarrow> number \<Rightarrow> bool" where
  "num_gt a b = (num_ge a b \<and> a \<noteq> b)"

text \<open>Truthiness, as \<open>if (v)\<close>, \<open>!v\<close>, \<open>v || w\<close> and \<open>v && w\<close> test it.\<close>

fun truthy :: "jsval \<Rightarrow> bool" where
  "truthy JUndefined = False"
| "truthy JNull = False"
| "truthy (JBool b) = b"
| "truthy (JNum n) = (\<not> isNaN n \<and> n \<noteq> Finite 0)"
| "truthy (JStr s) = (s \<noteq> [])"
| "truthy (JArr xs) = True"
| "truthy (JObj ps) = True"

text \<open>
  An evaluation returns a value, throws, or does something this development does not
  describe (\<open>Beyond\<close>: a property written on an array, a comparison that first converts
  an object to a number). No theorem below is about a \<open>Beyond\<close> result.
\<close>

datatype exn =
    TypeError
  | SyntaxError
  | SecurityError
  | QuotaExceededError
  | URIError
  | NetworkError
  | LeafletError

datatype 'a res = Val 'a | Throw exn | Beyond

fun res_bind :: "'a res \<Rightarrow> ('a \<Rightarrow> 'b res) \<Rightarrow> 'b res" where
  "res_bind (Val x) f = f x"
| "res_bind (Throw e) f = Throw e"
| "res_bind Beyond f = Beyond"

text \<open>
  \<open>v.k\<close> for a data property \<open>k\<close> of the scripts (\<open>wheelchair\<close>, \<open>has_ramp\<close>,
  \<open>results\<close>, ...): none of them is an index, \<open>length\<close>, or inherited from a
  prototype, so it is found among the own properties of an object and is undefined on
  every other value; reading a property of \<open>undefined\<close> or \<open>null\<close> throws.
\<close>

fun get_prop :: "jsval \<Rightarrow> string \<Rightarrow> jsval res" where
  "get_prop JUndefined k = Throw TypeError"
| "get_prop JNull k = Throw TypeError"
| "get_prop (JObj ps) k = Val (case map_of ps k of None \<Rightarrow> JUndefined | Some v \<Rightarrow> v)"
| "get_prop _ k = Val JUndefined"

text \<open>\<open>a || b\<close>: the first operand when it is truthy, else the second, evaluated only then.\<close>

definition js_or :: "jsval res \<Rightarrow> jsval res \<Rightarrow> jsval res" where
  "js_or a b = res_bind a (\<lambda>x. if truthy x then Val x else b)"

text \<open>\<open>Array.prototype.join\<close> on strings, and the tokens of a \<open>className\<close>.\<close>

fun join :: "string \<Rightarrow> string list \<Rightarrow> string" where
  "join sep [] = []"
| "join sep [x] = x"
| "join sep (x # y # ys) = x @ sep @ join sep (y # ys)"

fun split_spaces :: "string \<Rightarrow> string \<Rightarrow> string list" where
  "split_spaces acc [] = (if acc = [] then [] else [acc])"
| "split_spaces acc (c # cs) =
     (if c = CHR '' '' then (if acc = [] then split_spaces [] cs else acc # split_spaces [] cs)
      else split_spaces (acc @ [c]) cs)"

definition classList :: "string \<Rightarrow> string list" where
  "classList className = split_spaces [] className"

section \<open>FormValidator: the coordinates rule\<close>

text \<open>
  The four bounds of the rule are the numbers that the literals \<open>45.70\<close>, \<open>45.80\<close>,
  \<open>21.10\<close> and \<open>21.35\<close> denote in the script: the doubles nearest to these
  decimals. They are not the decimals: the first, third and fourth lie just above,
  the second just below.
\<close>

definition double_45_70 :: real where
  "double_45_70 = 3215851608919245 / 2 ^ 46"

definition double_45_80 :: real where
  "double_45_80 = 3222888483337011 / 2 ^ 46"

definition double_21_10 :: real where
  "double_21_10 = 2969561004297421 / 2 ^ 47"

definition double_21_35 :: real where
  "double_21_35 = 3004745376386253 / 2 ^ 47"

text \<open>
  \<open>validationRules.coordinates.validator(value, param)\<close>. \<open>parseFloat\<close> is the
  browser's, taken as a parameter: it maps a string to the number it parses to.
\<close>

definition coordinates_validator :: "(string \<Rightarrow> number) \<Rightarrow> string \<Rightarrow> jsval \<Rightarrow> bool" where
  "coordinates_validator parseFloat v param =
     (if v = [] then True
      else
        let num = parseFloat v in
        if isNaN num then False
        else if param = JStr ''lat'' then
          num_ge num (Finite double_45_70) \<and> num_le num (Finite double_45_80)
        else if param = JStr ''lng'' then
          num_ge num (Finite double_21_10) \<and> num_le num (Finite double_21_35)
        else True)"

text \<open>A few points of the graph of \<open>parseFloat\<close>, to evaluate the rules on.\<close>

definition parseFloat_sample :: "string \<Rightarrow> number" where
  "parseFloat_sample s =
     (if s = ''45.75'' then Finite 45.75
      else if s = ''21.25'' then Finite 21.25
      else if s = ''21.35'' then Finite double_21_35
      else if s = ''21.36'' then Finite (1503076375634903 / 2 ^ 46)
      else if s = ''46'' then Finite 46
      else if s = ''Infinity'' then PosInfinity
      else NaN)"

section \<open>AccessibilityMap: marker classes\<close>

text \<open>\<open>getMarkerIconClass(location)\<close>.\<close>

definition getMarkerIconClass :: "jsval \<Rightarrow> string res" where
  "getMarkerIconClass location =
     res_bind (js_or (get_prop location ''has_ramp'')
                 (js_or (get_prop location ''has_accessible_entrance'')
                        (get_prop location ''has_accessible_parking''))) (\<lambda>isWheelchair.
     res_bind (js_or (get_prop location ''has_braille'')
                     (get_prop location ''has_audio_guidance'')) (\<lambda>isVisual.
     res_bind (get_prop location ''has_staff_assistance'') (\<lambda>isCognitive.
     res_bind (get_prop location ''has_audio_guidance'') (\<lambda>isHearing.
     res_bind (get_prop location ''is_approved'') (\<lambda>is_approved.
       let classes = [''marker''];
           classes =
             (if truthy isWheelchair \<and> truthy isVisual \<and> truthy isCognitive \<and> truthy isHearing
              then classes @ [''fully-accessible'']
              else classes
                 @ (if truthy isWheelchair then [''wheelchair''] else [])
                 @ (if truthy isVisual then [''visual''] else [])
                 @ (if truthy isCognitive then [''cognitive''] else [])
                 @ (if truthy isHearing then [''hearing''] else []));
           classes = (if \<not> truthy is_approved then classes @ [''pending''] else classes)
       in Val (join '' '' classes))))))"

text \<open>The flag \<open>k\<close> of a location record, as the script reads it.\<close>

definition flag :: "(string \<times> jsval) list \<Rightarrow> string \<Rightarrow> bool" where
  "flag ps k = (case map_of ps k of None \<Rightarrow> False | Some v \<Rightarrow> truthy v)"

definition prop_of :: "(string \<times> jsval) list \<Rightarrow> string \<Rightarrow> jsval" where
  "prop_of ps k = (case map_of ps k of None \<Rightarrow> JUndefined | Some v \<Rightarrow> v)"

text \<open>The class list that the method builds, as a function of the five derived flags.\<close>

definition marker_classes :: "bool \<Rightarrow> bool \<Rightarrow> bool \<Rightarrow> bool \<Rightarrow> bool \<Rightarrow> string list" where
  "marker_classes W V C H A =
     [''marker'']
     @ (if W \<and> V \<and> C \<and> H then [''fully-accessible'']
        else (if W then [''wheelchair''] else []) @ (if V then [''visual''] else [])
           @ (if C then [''cognitive''] else []) @ (if H then [''hearing''] else []))
     @ (if \<not> A then [''pending''] else [])"

section \<open>The browser: storage, console, evaluation of statements\<close>

text \<open>
  \<open>localStorage\<close> holds strings under string keys. Reading or writing it throws a
  \<open>SecurityError\<close> when the page is denied access to storage, and writing throws a
  \<open>QuotaExceededError\<close> when the storage is full. \<open>getItem\<close> returns \<open>null\<close>
  (\<open>None\<close>) for a key that is not there.
\<close>

record localStorage =
  items :: "string \<rightharpoonup> string"
  denied :: bool
  full :: bool

definition getItem :: "localStorage \<Rightarrow> string \<Rightarrow> string option res" where
  "getItem st k = (if denied st then Throw SecurityError else Val (items st k))"

definition setItem :: "localStorage \<Rightarrow> string \<Rightarrow> string \<Rightarrow> localStorage res" where
  "setItem st k v =
     (if denied st then Throw SecurityError
      else if full st then Throw QuotaExceededError
      else Val (st\<lparr>items := (items st)(k \<mapsto> v)\<rparr>))"

datatype console_entry =
    ConsoleWarn string exn
  | ConsoleError string exn
  | ConsoleErrorText string

record browser =
  storage :: localStorage
  console :: "console_entry list"

text \<open>
  A method runs on a state and returns normally with the new state, or throws from a
  state (the effects before the throw stay), or leaves this development (\<open>Outside\<close>,
  when an evaluation in it is \<open>Beyond\<close>). \<open>try_catch\<close> is \<open>try { ... } catch (e) { ... }\<close>.
\<close>

datatype 's outcome = Returns 's | Raises exn 's | Outside

fun eval_then :: "'a res \<Rightarrow> 's \<Rightarrow> ('a \<Rightarrow> 's outcome) \<Rightarrow> 's outcome" where
  "eval_then (Val x) s k = k x"
| "eval_then (Throw e) s k = Raises e s"
| "eval_then Beyond s k = Outside"

fun and_then :: "'s outcome \<Rightarrow> ('s \<Rightarrow> 's outcome) \<Rightarrow> 's outcome" where
  "and_then (Returns s) k = k s"
| "and_then (Raises e s) k = Raises e s"
| "and_then Outside k = Outside"

fun try_catch :: "'s outcome \<Rightarrow> (exn \<Rightarrow> 's \<Rightarrow> 's outcome) \<Rightarrow> 's outcome" where
  "try_catch (Returns s) h = Returns s"
| "try_catch (Raises e s) h = h e s"
| "try_catch Outside h = Outside"

text \<open>
  \<open>JSON.stringify\<close> and \<open>JSON.parse\<close> are the browser's and are parameters of the
  methods that call them: \<open>stringify\<close> maps a value to its text, \<open>parse\<close> maps a text
  to the value it denotes, or to \<open>None\<close> when it throws a \<open>SyntaxError\<close>.
\<close>

definition JSON_parse :: "(string \<Rightarrow> jsval option) \<Rightarrow> string \<Rightarrow> jsval res" where
  "JSON_parse parse s = (case parse s of None \<Rightarrow> Throw SyntaxError | Some v \<Rightarrow> Val v)"

text \<open>
  The string that a template literal \<open>`${v}`\<close> makes of a value; the texts of
  numbers, arrays and objects are not described.
\<close>

fun to_text :: "jsval \<Rightarrow> string res" where
  "to_text (JStr s) = Val s"
| "to_text JUndefined = Val ''undefined''"
| "to_text JNull = Val ''null''"
| "to_text (JBool b) = Val (if b then ''true'' else ''false'')"
| "to_text _ = Beyond"

section \<open>AccessibilityApp: text size, contrast and their persistence\<close>

text \<open>
  \<open>this.state\<close> of the application object, and around it what its methods touch: the
  storage and the console, the class list of \<open>document.body\<close>, the text of the
  screen-reader announcer (\<open>None\<close> until the element is created), and the
  \<open>data-preferences\<close> attribute of the element \<open>user-preferences\<close> (\<open>None\<close> when
  the element or the attribute is missing).
\<close>

record app_state =
  highContrast :: jsval
  textSize :: jsval
  userPreferences :: jsval

record app = browser +
  state :: app_state
  body_classes :: "string set"
  announcer :: "string option"
  user_preferences_data :: "string option"

text \<open>The state that the constructor sets up, before \<open>init\<close>.\<close>

definition initial_app_state :: app_state where
  "initial_app_state =
     \<lparr>highContrast = JBool False, textSize = JStr ''normal'', userPreferences = JNull\<rparr>"

definition savePreferences :: "(jsval \<Rightarrow> string) \<Rightarrow> app \<Rightarrow> app outcome" where
  "savePreferences stringify a =
     try_catch
       (eval_then
          (setItem (storage a) ''accessibility_preferences''
             (stringify (JObj [(''highContrast'', highContrast (state a)),
                               (''textSize'', textSize (state a))])))
          a (\<lambda>st. Returns (a\<lparr>storage := st\<rparr>)))
       (\<lambda>e s. Returns
          (s\<lparr>console := console s @ [ConsoleWarn ''Could not save preferences to localStorage:'' e]\<rparr>))"

definition loadPreferences :: "(string \<Rightarrow> jsval option) \<Rightarrow> app \<Rightarrow> app outcome" where
  "loadPreferences parse a =
     try_catch
       (eval_then (getItem (storage a) ''accessibility_preferences'') a (\<lambda>saved.
        and_then
          (case saved of
             None \<Rightarrow> Returns a
           | Some sv \<Rightarrow>
               if sv = [] then Returns a
               else
                 eval_then (JSON_parse parse sv) a (\<lambda>preferences.
                 eval_then (js_or (get_prop preferences ''highContrast'') (Val (JBool False))) a (\<lambda>hc.
                 let a1 = a\<lparr>state := (state a)\<lparr>highContrast := hc\<rparr>\<rparr> in
                 eval_then (js_or (get_prop preferences ''textSize'') (Val (JStr ''normal''))) a1 (\<lambda>ts.
                 Returns (a1\<lparr>state := (state a1)\<lparr>textSize := ts\<rparr>\<rparr>)))))
          (\<lambda>a2.
             case user_preferences_data a2 of
               None \<Rightarrow> Returns a2
             | Some p \<Rightarrow>
                 if p = [] then Returns a2
                 else
                   eval_then (JSON_parse parse p) a2 (\<lambda>up.
                   Returns (a2\<lparr>state := (state a2)\<lparr>userPreferences := up\<rparr>\<rparr>)))))
       (\<lambda>e s. Returns
          (s\<lparr>console := console s @ [ConsoleWarn ''Could not load preferences from localStorage:'' e]\<rparr>))"

definition announceAccessibilityChange :: "string \<Rightarrow> app \<Rightarrow> app" where
  "announceAccessibilityChange message a = a\<lparr>announcer := Some message\<rparr>"

definition toggleHighContrast :: "(jsval \<Rightarrow> string) \<Rightarrow> app \<Rightarrow> app outcome" where
  "toggleHighContrast stringify a =
     (let hc = \<not> truthy (highContrast (state a));
          a1 = a\<lparr>state := (state a)\<lparr>highContrast := JBool hc\<rparr>,
                  body_classes :=
                    insert ''high-contrast-override''
                      (if hc then insert ''high-contrast'' (body_classes a)
                       else body_classes a - {''high-contrast''})\<rparr>
      in and_then (savePreferences stringify a1) (\<lambda>a2.
         Returns (announceAccessibilityChange
           (''High contrast mode '' @ (if hc then ''enabled'' else ''disabled'')) a2)))"

definition increaseTextSize :: "(jsval \<Rightarrow> string) \<Rightarrow> app \<Rightarrow> app outcome" where
  "increaseTextSize stringify a =
     (let a1 =
        (if textSize (state a) = JStr ''normal'' then
           a\<lparr>state := (state a)\<lparr>textSize := JStr ''large''\<rparr>,
             body_classes := insert ''large-text'' (body_classes a) - {''xl-text''}\<rparr>
         else if textSize (state a) = JStr ''large'' then
           a\<lparr>state := (state a)\<lparr>textSize := JStr ''xl''\<rparr>,
             body_classes := insert ''xl-text'' (body_classes a - {''large-text''})\<rparr>
         else a)
      in and_then (savePreferences stringify a1) (\<lambda>a2.
         eval_then (to_text (textSize (state a2))) a2 (\<lambda>sizeText.
         Returns (announceAccessibilityChange (''Text size increased to '' @ sizeText) a2))))"

definition decreaseTextSize :: "(jsval \<Rightarrow> string) \<Rightarrow> app \<Rightarrow> app outcome" where
  "decreaseTextSize stringify a =
     (let a1 =
        (if textSize (state a) = JStr ''xl'' then
           a\<lparr>state := (state a)\<lparr>textSize := JStr ''large''\<rparr>,
             body_classes := insert ''large-text'' (body_classes a) - {''xl-text''}\<rparr>
         else if textSize (state a) = JStr ''large'' then
           a\<lparr>state := (state a)\<lparr>textSize := JStr ''normal''\<rparr>,
             body_classes := body_classes a - {''large-text''} - {''xl-text''}\<rparr>
         else a)
      in and_then (savePreferences stringify a1) (\<lambda>a2.
         eval_then (to_text (textSize (state a2))) a2 (\<lambda>sizeText.
         Returns (announceAccessibilityChange (''Text size decreased to '' @ sizeText) a2))))"

text \<open>The three text sizes of the application.\<close>

definition text_sizes :: "jsval set" where
  "text_sizes = {JStr ''normal'', JStr ''large'', JStr ''xl''}"

section \<open>Operations on values\<close>

text \<open>
  \<open>o[k] = v\<close> in the strict code of a class body: it sets an own property of an
  object, and throws on \<open>undefined\<close>, \<open>null\<close> and on a primitive value. Writing a
  property of an array and writing \<open>__proto__\<close> are not described.
\<close>

fun update_prop :: "string \<Rightarrow> jsval \<Rightarrow> (string \<times> jsval) list \<Rightarrow> (string \<times> jsval) list" where
  "update_prop k v [] = [(k, v)]"
| "update_prop k v ((k', v') # ps) =
     (if k' = k then (k, v) # ps else (k', v') # update_prop k v ps)"

fun set_prop :: "jsval \<Rightarrow> string \<Rightarrow> jsval \<Rightarrow> jsval res" where
  "set_prop (JObj ps) k v = (if k = ''__proto__'' then Beyond else Val (JObj (update_prop k v ps)))"
| "set_prop (JArr xs) k v = Beyond"
| "set_prop _ k v = Throw TypeError"

text \<open>
  \<open>v.length\<close>, and \<open>v > 0\<close> for a value that is a number, a boolean, \<open>null\<close> or
  \<open>undefined\<close> (the other values are first converted to a number, which is not
  described).
\<close>

fun js_length :: "jsval \<Rightarrow> jsval res" where
  "js_length (JArr xs) = Val (JNum (Finite (real (length xs))))"
| "js_length (JStr s) = Val (JNum (Finite (real (length s))))"
| "js_length (JObj ps) = Val (prop_of ps ''length'')"
| "js_length JUndefined = Throw TypeError"
| "js_length JNull = Throw TypeError"
| "js_length _ = Val JUndefined"

fun js_gt_zero :: "jsval \<Rightarrow> jsval res" where
  "js_gt_zero (JNum n) = Val (JBool (num_gt n (Finite 0)))"
| "js_gt_zero (JBool b) = Val (JBool b)"
| "js_gt_zero JNull = Val (JBool False)"
| "js_gt_zero JUndefined = Val (JBool False)"
| "js_gt_zero _ = Beyond"

text \<open>
  \<open>xs.includes(x)\<close>, \<open>xs.push(x)\<close> and \<open>xs.filter(t => t !== x)\<close> for an \<open>x\<close> that is
  a string or \<open>undefined\<close>. An array has the three methods; a string has \<open>includes\<close>
  only, which looks for the text of \<open>x\<close> in it; calling a method that the value does
  not have throws.
\<close>

fun is_substring :: "string \<Rightarrow> string \<Rightarrow> bool" where
  "is_substring t [] = (t = [])"
| "is_substring t (c # cs) = (prefix t (c # cs) \<or> is_substring t cs)"

fun js_includes :: "jsval \<Rightarrow> jsval \<Rightarrow> bool res" where
  "js_includes (JArr xs) x = Val (x \<in> set xs)"
| "js_includes (JStr s) x = res_bind (to_text x) (\<lambda>t. Val (is_substring t s))"
| "js_includes _ x = Throw TypeError"

fun js_push :: "jsval \<Rightarrow> jsval \<Rightarrow> jsval res" where
  "js_push (JArr xs) x = Val (JArr (xs @ [x]))"
| "js_push _ x = Throw TypeError"

fun js_filter_out :: "jsval \<Rightarrow> jsval \<Rightarrow> jsval res" where
  "js_filter_out (JArr xs) x = Val (JArr (filter (\<lambda>t. t \<noteq> x) xs))"
| "js_filter_out _ x = Throw TypeError"

text \<open>
  The object spread \<open>{...v}\<close>: the own properties of an object, none for a value that
  has none; the spread of a non-empty array or string (its indices) is not described.
\<close>

fun spread :: "jsval \<Rightarrow> jsval res" where
  "spread (JObj ps) = Val (JObj ps)"
| "spread (JArr xs) = (if xs = [] then Val (JObj []) else Beyond)"
| "spread (JStr s) = (if s = [] then Val (JObj []) else Beyond)"
| "spread _ = Val (JObj [])"

text \<open>Evaluating a list of results in order, up to the first that is not a value.\<close>

fun res_all :: "'a res list \<Rightarrow> 'a list res" where
  "res_all [] = Val []"
| "res_all (r # rs) = res_bind r (\<lambda>x. res_bind (res_all rs) (\<lambda>xs. Val (x # xs)))"

section \<open>The map page: its state\<close>

text \<open>
  The filter controller and the map live on one page and share its storage, console
  and network. The page state holds: \<open>filters\<close>, the \<open>this.filters\<close> of
  \<open>AccessibilityFilters\<close>; whether its \<open>this.map\<close> is the \<open>AccessibilityMap\<close>; the text
  of the filter announcer; of the map, \<open>this.currentFilters\<close>, the two marker layers
  and \<open>this.markers\<close>; the URLs passed to \<open>fetch\<close> so far; and, each \<open>None\<close> when the
  element is not in the document, the search result box, the notification container
  and the details sidebar. A marker is kept as its class name, its coordinates and the
  location it was made for; markup is kept as the values it shows.
\<close>

record marker =
  marker_class :: string
  marker_lat :: jsval
  marker_lng :: jsval
  marker_location :: jsval

record search_item =
  item_name :: jsval
  item_address :: jsval
  item_result :: jsval

datatype search_content = Items "search_item list" | NoResults | SearchError

record search_view =
  content :: search_content
  display_block :: bool

record details_view =
  shown_name :: jsval
  shown_address :: jsval
  shown_features :: "(string \<times> bool) list"
  shown_description :: jsval
  shown_photos :: "(jsval \<times> jsval) list option"
  shown_reviews :: "jsval list"

record sidebar_view =
  details :: "details_view option"
  is_open :: bool

record page = browser +
  filters :: jsval
  map_attached :: bool
  filter_status :: "string option"
  currentFilters :: jsval
  approved :: "marker list"
  pending :: "marker list"
  markers :: "marker list"
  requests :: "string list"
  search_results :: "search_view option"
  notifications :: "(string \<times> string) list option"
  sidebar :: "sidebar_view option"

text \<open>The filter object of the two constructors and of \<open>resetFilters\<close>.\<close>

definition default_filters :: jsval where
  "default_filters =
     JObj [(''wheelchair'', JBool False), (''visual'', JBool False), (''hearing'', JBool False),
           (''cognitive'', JBool False), (''locationTypes'', JArr [])]"

section \<open>AccessibilityMap: the requests\<close>

definition search_endpoint :: string where
  "search_endpoint = ''/api/search?q=''"

definition locations_endpoint :: string where
  "locations_endpoint = ''/api/locations?''"

definition location_endpoint :: string where
  "location_endpoint = ''/api/locations/''"

text \<open>
  The query parameters that \<open>loadLocations\<close> appends, from \<open>this.currentFilters\<close>.
  \<open>forEach\<close> is a method of arrays only.
\<close>

definition filter_params :: "jsval \<Rightarrow> (string \<times> string) list res" where
  "filter_params cf =
     res_bind (get_prop cf ''wheelchair'') (\<lambda>w.
     res_bind (get_prop cf ''visual'') (\<lambda>v.
     res_bind (get_prop cf ''hearing'') (\<lambda>h.
     res_bind (get_prop cf ''cognitive'') (\<lambda>c.
     res_bind (get_prop cf ''locationTypes'') (\<lambda>lt.
     res_bind (case lt of JArr ts \<Rightarrow> res_all (map to_text ts) | _ \<Rightarrow> Throw TypeError) (\<lambda>types.
       Val ((if truthy w then [(''wheelchair'', ''true'')] else [])
          @ (if truthy v then [(''visual'', ''true'')] else [])
          @ (if truthy h then [(''hearing'', ''true'')] else [])
          @ (if truthy c then [(''cognitive'', ''true'')] else [])
          @ map (\<lambda>t. (''type'', t)) types)))))))"

text \<open>
  \<open>loadLocations()\<close> up to the call of \<open>fetch\<close>; \<open>URLSearchParams.toString\<close> is the
  browser's (\<open>query\<close>). What the promise does when it settles is
  \<open>loadLocations_settled\<close>.
\<close>

definition loadLocations :: "((string \<times> string) list \<Rightarrow> string) \<Rightarrow> page \<Rightarrow> page outcome" where
  "loadLocations query p =
     (let p1 = p\<lparr>approved := [], pending := []\<rparr> in
      eval_then (filter_params (currentFilters p1)) p1 (\<lambda>filterParams.
      Returns (p1\<lparr>requests := requests p1 @ [locations_endpoint @ query filterParams]\<rparr>)))"

text \<open>\<open>AccessibilityMap.applyFilters(filters)\<close>.\<close>

definition map_applyFilters ::
  "((string \<times> string) list \<Rightarrow> string) \<Rightarrow> jsval \<Rightarrow> page \<Rightarrow> page outcome" where
  "map_applyFilters query f p =
     eval_then (spread f) p (\<lambda>cf. loadLocations query (p\<lparr>currentFilters := cf\<rparr>))"

text \<open>
  \<open>searchLocations(query)\<close> up to the call of \<open>fetch\<close>; \<open>encodeURIComponent\<close> is the
  browser's and throws a \<open>URIError\<close> (\<open>None\<close>) on a malformed string.
\<close>

definition searchLocations :: "(string \<Rightarrow> string option) \<Rightarrow> string \<Rightarrow> page \<Rightarrow> page outcome" where
  "searchLocations encodeURIComponent q p =
     (case search_results p of
        None \<Rightarrow> Returns p
      | Some box \<Rightarrow>
          (case encodeURIComponent q of
             None \<Rightarrow> Raises URIError p
           | Some e \<Rightarrow> Returns (p\<lparr>requests := requests p @ [search_endpoint @ e]\<rparr>)))"

text \<open>
  \<open>showLocationDetails(locationId)\<close> up to the call of \<open>fetch\<close>; the text of a number
  is the browser's (\<open>num_text\<close>).
\<close>

definition to_text_num :: "(number \<Rightarrow> string) \<Rightarrow> jsval \<Rightarrow> string res" where
  "to_text_num num_text v = (case v of JNum n \<Rightarrow> Val (num_text n) | _ \<Rightarrow> to_text v)"

definition showLocationDetails :: "(number \<Rightarrow> string) \<Rightarrow> jsval \<Rightarrow> page \<Rightarrow> page outcome" where
  "showLocationDetails num_text locationId p =
     eval_then (to_text_num num_text locationId) p (\<lambda>id.
     Returns (p\<lparr>requests := requests p @ [location_endpoint @ id]\<rparr>))"

section \<open>AccessibilityFilters\<close>

definition storageKey :: string where
  "storageKey = ''accessibility_filters''"

definition saveFilters :: "(jsval \<Rightarrow> string) \<Rightarrow> page \<Rightarrow> page outcome" where
  "saveFilters stringify p =
     try_catch
       (eval_then (setItem (storage p) storageKey (stringify (filters p))) p
          (\<lambda>st. Returns (p\<lparr>storage := st\<rparr>)))
       (\<lambda>e s. Returns
          (s\<lparr>console := console s @ [ConsoleWarn ''Could not save filters to localStorage:'' e]\<rparr>))"

definition loadSavedFilters :: "(string \<Rightarrow> jsval option) \<Rightarrow> page \<Rightarrow> page outcome" where
  "loadSavedFilters parse p =
     try_catch
       (eval_then (getItem (storage p) storageKey) p (\<lambda>savedFilters.
          case savedFilters of
            None \<Rightarrow> Returns p
          | Some sv \<Rightarrow>
              if sv = [] then Returns p
              else eval_then (JSON_parse parse sv) p (\<lambda>v. Returns (p\<lparr>filters := v\<rparr>))))
       (\<lambda>e s. Returns
          (s\<lparr>console := console s @ [ConsoleWarn ''Could not load filters from localStorage:'' e]\<rparr>))"

text \<open>\<open>AccessibilityFilters.applyFilters()\<close>.\<close>

definition applyFilters :: "((string \<times> string) list \<Rightarrow> string) \<Rightarrow> page \<Rightarrow> page outcome" where
  "applyFilters query p =
     (if map_attached p then map_applyFilters query (filters p) p
      else Returns (p\<lparr>console := console p @
             [ConsoleErrorText ''Map instance not found or applyFilters method not available'']\<rparr>))"

definition hasActiveFilters :: "jsval \<Rightarrow> jsval res" where
  "hasActiveFilters f =
     js_or (get_prop f ''wheelchair'')
    (js_or (get_prop f ''visual'')
    (js_or (get_prop f ''hearing'')
    (js_or (get_prop f ''cognitive'')
           (res_bind (get_prop f ''locationTypes'') (\<lambda>lt.
            res_bind (js_length lt) js_gt_zero)))))"

text \<open>
  A filter button, as \<open>toggleFilterButton\<close> finds it: its \<open>data-filter\<close> attribute
  (\<open>None\<close> when it has none, and then \<open>filterType\<close> is \<open>undefined\<close> and the property
  written is \<open>"undefined"\<close>) and whether it has the class \<open>active\<close>. The method toggles
  the class and takes \<open>isActive\<close> from the button afterwards.
\<close>

record button =
  data_filter :: "string option"
  active :: bool

definition property_key :: "string option \<Rightarrow> string" where
  "property_key k = (case k of None \<Rightarrow> ''undefined'' | Some s \<Rightarrow> s)"

definition inherited_keys :: "string list" where
  "inherited_keys =
     [''constructor'', ''hasOwnProperty'', ''isPrototypeOf'', ''propertyIsEnumerable'',
      ''toLocaleString'', ''toString'', ''valueOf'', ''__proto__'', ''__defineGetter__'',
      ''__defineSetter__'', ''__lookupGetter__'', ''__lookupSetter__'']"

text \<open>\<open>`${filterNames[filterType]}`\<close>; a key that \<open>filterNames\<close> inherits is not described.\<close>

definition filterNames :: "string \<Rightarrow> string res" where
  "filterNames k =
     (if k = ''wheelchair'' then Val ''Wheelchair accessibility''
      else if k = ''visual'' then Val ''Visual accessibility''
      else if k = ''hearing'' then Val ''Hearing accessibility''
      else if k = ''cognitive'' then Val ''Cognitive accessibility''
      else if k \<in> set inherited_keys then Beyond
      else Val ''undefined'')"

definition announceFilterChange :: "string option \<Rightarrow> bool \<Rightarrow> page \<Rightarrow> page outcome" where
  "announceFilterChange filterType isActive p =
     eval_then (filterNames (property_key filterType)) p (\<lambda>name.
     Returns (p\<lparr>filter_status :=
       Some (name @ '' filter '' @ (if isActive then ''enabled'' else ''disabled''))\<rparr>))"

definition toggleFilterButton ::
  "(jsval \<Rightarrow> string) \<Rightarrow> ((string \<times> string) list \<Rightarrow> string) \<Rightarrow> button \<Rightarrow> page \<Rightarrow> page outcome" where
  "toggleFilterButton stringify query btn p =
     (let filterType = data_filter btn;
          isActive = \<not> active btn
      in eval_then (set_prop (filters p) (property_key filterType) (JBool isActive)) p (\<lambda>f.
         and_then (applyFilters query (p\<lparr>filters := f\<rparr>)) (\<lambda>p1.
         and_then (saveFilters stringify p1) (\<lambda>p2.
         announceFilterChange filterType isActive p2))))"

text \<open>
  A type checkbox: its \<open>data-type\<close> attribute and whether it is checked.
  \<open>push\<close> changes the array that \<open>this.filters.locationTypes\<close> holds, so the property
  holds the longer array afterwards.
\<close>

record checkbox =
  data_type :: "string option"
  checked :: bool

definition announceTypeFilterChange :: "jsval \<Rightarrow> bool \<Rightarrow> page \<Rightarrow> page outcome" where
  "announceTypeFilterChange locationType isChecked p =
     eval_then (to_text locationType) p (\<lambda>name.
     Returns (p\<lparr>filter_status :=
       Some (name @ '' filter '' @ (if isChecked then ''enabled'' else ''disabled''))\<rparr>))"

definition toggleTypeFilter ::
  "(jsval \<Rightarrow> string) \<Rightarrow> ((string \<times> string) list \<Rightarrow> string) \<Rightarrow> checkbox \<Rightarrow> page \<Rightarrow> page outcome" where
  "toggleTypeFilter stringify query box p =
     (let locationType = (case data_type box of None \<Rightarrow> JUndefined | Some t \<Rightarrow> JStr t);
          isChecked = checked box
      in and_then
           (eval_then (get_prop (filters p) ''locationTypes'') p (\<lambda>lt.
              if isChecked then
                eval_then (js_includes lt locationType) p (\<lambda>included.
                  if included then Returns p
                  else
                    eval_then (js_push lt locationType) p (\<lambda>lt'.
                    eval_then (set_prop (filters p) ''locationTypes'' lt') p (\<lambda>f.
                    Returns (p\<lparr>filters := f\<rparr>))))
              else
                eval_then (js_filter_out lt locationType) p (\<lambda>lt'.
                eval_then (set_prop (filters p) ''locationTypes'' lt') p (\<lambda>f.
                Returns (p\<lparr>filters := f\<rparr>)))))
           (\<lambda>p1.
            and_then (applyFilters query p1) (\<lambda>p2.
            and_then (saveFilters stringify p2) (\<lambda>p3.
            announceTypeFilterChange locationType isChecked p3))))"

definition resetFilters ::
  "(jsval \<Rightarrow> string) \<Rightarrow> ((string \<times> string) list \<Rightarrow> string) \<Rightarrow> page \<Rightarrow> page outcome" where
  "resetFilters stringify query p =
     and_then (applyFilters query (p\<lparr>filters := default_filters\<rparr>)) (\<lambda>p1.
     and_then (saveFilters stringify p1) (\<lambda>p2.
     Returns (p2\<lparr>filter_status := Some ''All filters have been reset''\<rparr>)))"

text \<open>\<open>if (preferences.need) { this.filters.name = true; }\<close>\<close>

definition set_filter_if :: "jsval \<Rightarrow> string \<Rightarrow> string \<Rightarrow> page \<Rightarrow> page outcome" where
  "set_filter_if preferences need name p =
     eval_then (get_prop preferences need) p (\<lambda>needed.
       if truthy needed then
         eval_then (set_prop (filters p) name (JBool True)) p (\<lambda>f. Returns (p\<lparr>filters := f\<rparr>))
       else Returns p)"

text \<open>
  The loop of \<open>setFromUserPreferences\<close> over the filter buttons of the page
  (\<open>buttons\<close>): it reads \<open>this.filters[filterType]\<close> for each button, to mark the
  button when its filter is set. The classes of the buttons are not part of the
  state, so what is left of the loop is the read.
\<close>

fun mark_buttons :: "button list \<Rightarrow> page \<Rightarrow> page outcome" where
  "mark_buttons [] p = Returns p"
| "mark_buttons (b # bs) p =
     eval_then (get_prop (filters p) (property_key (data_filter b))) p (\<lambda>isSet.
     mark_buttons bs p)"

definition setFromUserPreferences ::
  "(jsval \<Rightarrow> string) \<Rightarrow> ((string \<times> string) list \<Rightarrow> string) \<Rightarrow> button list \<Rightarrow> jsval \<Rightarrow>
   page \<Rightarrow> page outcome" where
  "setFromUserPreferences stringify query buttons preferences p =
     (if \<not> truthy preferences then Returns p
      else
        and_then (set_filter_if preferences ''needs_wheelchair'' ''wheelchair'' p) (\<lambda>p1.
        and_then (set_filter_if preferences ''needs_visual_assistance'' ''visual'' p1) (\<lambda>p2.
        and_then (set_filter_if preferences ''needs_hearing_assistance'' ''hearing'' p2) (\<lambda>p3.
        and_then (set_filter_if preferences ''needs_cognitive_assistance'' ''cognitive'' p3) (\<lambda>p4.
        and_then (mark_buttons buttons p4) (\<lambda>p5.
        and_then (applyFilters query p5) (\<lambda>p6.
        saveFilters stringify p6)))))))"

section \<open>Sample values\<close>

text \<open>
  Concrete inputs to evaluate the methods on. \<open>stringify_sample\<close> and \<open>parse_sample\<close>
  agree with \<open>JSON.stringify\<close> and \<open>JSON.parse\<close> on the values and texts listed; the
  sample gives the empty text for any other value and takes any other text as
  malformed. \<open>json_roundtrip\<close> says of a value that its
  text is not empty and parses back to it, as holds of \<open>JSON\<close> for objects made of
  booleans, strings and arrays of strings.
\<close>

definition json_roundtrip :: "(jsval \<Rightarrow> string) \<Rightarrow> (string \<Rightarrow> jsval option) \<Rightarrow> jsval \<Rightarrow> bool" where
  "json_roundtrip stringify parse v \<longleftrightarrow> stringify v \<noteq> [] \<and> parse (stringify v) = Some v"

definition stringify_sample :: "jsval \<Rightarrow> string" where
  \<open>stringify_sample v =
     (if v = JObj [(''highContrast'', JBool True), (''textSize'', JStr ''large'')]
      then ''{"highContrast":true,"textSize":"large"}''
      else if v = JObj [(''highContrast'', JBool True), (''textSize'', JStr ''xl'')]
      then ''{"highContrast":true,"textSize":"xl"}''
      else if v = JObj [(''wheelchair'', JBool True), (''visual'', JBool False),
                        (''hearing'', JBool False), (''cognitive'', JBool False),
                        (''locationTypes'', JArr [])]
      then ''{"wheelchair":true,"visual":false,"hearing":false,"cognitive":false,"locationTypes":[]}''
      else if v = JObj [(''wheelchair'', JBool True), (''visual'', JBool False),
                        (''hearing'', JBool False), (''cognitive'', JBool False),
                        (''locationTypes'', JArr [JStr ''cafe''])]
      then ''{"wheelchair":true,"visual":false,"hearing":false,"cognitive":false,"locationTypes":["cafe"]}''
      else [])\<close>

definition parse_sample :: "string \<Rightarrow> jsval option" where
  \<open>parse_sample s =
     (if s = ''{"highContrast":true,"textSize":"large"}''
      then Some (JObj [(''highContrast'', JBool True), (''textSize'', JStr ''large'')])
      else if s = ''{"highContrast":true,"textSize":"xl"}''
      then Some (JObj [(''highContrast'', JBool True), (''textSize'', JStr ''xl'')])
      else if s = ''{"wheelchair":true,"visual":false,"hearing":false,"cognitive":false,"locationTypes":[]}''
      then Some (JObj [(''wheelchair'', JBool True), (''visual'', JBool False),
                       (''hearing'', JBool False), (''cognitive'', JBool False),
                       (''locationTypes'', JArr [])])
      else if s = ''{"wheelchair":true,"visual":false,"hearing":false,"cognitive":false,"locationTypes":["cafe"]}''
      then Some (JObj [(''wheelchair'', JBool True), (''visual'', JBool False),
                       (''hearing'', JBool False), (''cognitive'', JBool False),
                       (''locationTypes'', JArr [JStr ''cafe''])])
      else if s = ''{}'' then Some (JObj [])
      else if s = ''null'' then Some JNull
      else None)\<close>

definition app_sample :: app where
  "app_sample =
     \<lparr>storage = \<lparr>items = Map.empty, denied = False, full = False\<rparr>, console = [],
      state = \<lparr>highContrast = JBool True, textSize = JStr ''large'', userPreferences = JNull\<rparr>,
      body_classes = {''large-text''}, announcer = None, user_preferences_data = None\<rparr>"

section \<open>The shape of the filter object, and sequences of filter operations\<close>

fun is_boolean :: "jsval \<Rightarrow> bool" where
  "is_boolean (JBool b) = True"
| "is_boolean _ = False"

fun is_string :: "jsval \<Rightarrow> bool" where
  "is_string (JStr s) = True"
| "is_string _ = False"

fun is_string_array :: "jsval \<Rightarrow> bool" where
  "is_string_array (JArr xs) = list_all is_string xs"
| "is_string_array _ = False"

definition filter_names :: "string list" where
  "filter_names = [''wheelchair'', ''visual'', ''hearing'', ''cognitive'']"

text \<open>
  The filter object has the shape of the constructor's: exactly the four boolean
  properties and \<open>locationTypes\<close>, an array of strings.
\<close>

fun well_shaped :: "jsval \<Rightarrow> bool" where
  "well_shaped (JObj ps) =
     (distinct (map fst ps)
      \<and> set (map fst ps) = set (filter_names @ [''locationTypes''])
      \<and> list_all (\<lambda>k. is_boolean (prop_of ps k)) filter_names
      \<and> is_string_array (prop_of ps ''locationTypes''))"
| "well_shaped _ = False"

datatype filter_op =
    LoadSavedFilters
  | ToggleFilterButton button
  | ToggleTypeFilter checkbox
  | ResetFilters
  | SetFromUserPreferences jsval

text \<open>
  One operation, and a sequence of operations, on a page with the filter buttons
  \<open>buttons\<close>.
\<close>

fun filter_step ::
  "(jsval \<Rightarrow> string) \<Rightarrow> (string \<Rightarrow> jsval option) \<Rightarrow> ((string \<times> string) list \<Rightarrow> string) \<Rightarrow>
   button list \<Rightarrow> filter_op \<Rightarrow> page \<Rightarrow> page outcome" where
  "filter_step stringify parse query buttons LoadSavedFilters p = loadSavedFilters parse p"
| "filter_step stringify parse query buttons (ToggleFilterButton b) p =
     toggleFilterButton stringify query b p"
| "filter_step stringify parse query buttons (ToggleTypeFilter c) p =
     toggleTypeFilter stringify query c p"
| "filter_step stringify parse query buttons ResetFilters p = resetFilters stringify query p"
| "filter_step stringify parse query buttons (SetFromUserPreferences prefs) p =
     setFromUserPreferences stringify query buttons prefs p"

fun filter_run ::
  "(jsval \<Rightarrow> string) \<Rightarrow> (string \<Rightarrow> jsval option) \<Rightarrow> ((string \<times> string) list \<Rightarrow> string) \<Rightarrow>
   button list \<Rightarrow> filter_op list \<Rightarrow> page \<Rightarrow> page outcome" where
  "filter_run stringify parse query buttons [] p = Returns p"
| "filter_run stringify parse query buttons (x # xs) p =
     and_then (filter_step stringify parse query buttons x p)
       (filter_run stringify parse query buttons xs)"

text \<open>
  The operations of a page whose filter buttons carry one of the four filter names
  and whose type checkboxes carry a type.
\<close>

fun expected_op :: "filter_op \<Rightarrow> bool" where
  "expected_op (ToggleFilterButton b) =
     (case data_filter b of None \<Rightarrow> False | Some k \<Rightarrow> k \<in> set filter_names)"
| "expected_op (ToggleTypeFilter c) = (data_type c \<noteq> None)"
| "expected_op _ = True"

text \<open>
  What the storage holds under the filter key is nothing, or the empty string, or a
  text that does not parse, or the text of a well-shaped filter object.
\<close>

definition stored_well_shaped :: "(string \<Rightarrow> jsval option) \<Rightarrow> localStorage \<Rightarrow> bool" where
  "stored_well_shaped parse st =
     (case items st storageKey of
        None \<Rightarrow> True
      | Some s \<Rightarrow> s = [] \<or> (case parse s of None \<Rightarrow> True | Some v \<Rightarrow> well_shaped v))"

text \<open>The text that \<open>stringify\<close> writes for a well-shaped object parses to a well-shaped one.\<close>

definition json_keeps_shape :: "(jsval \<Rightarrow> string) \<Rightarrow> (string \<Rightarrow> jsval option) \<Rightarrow> bool" where
  "json_keeps_shape stringify parse \<longleftrightarrow>
     (\<forall>v. well_shaped v \<longrightarrow> (case parse (stringify v) of None \<Rightarrow> True | Some v' \<Rightarrow> well_shaped v'))"

text \<open>A page to evaluate on: no element of the map page is missing, nothing is stored.\<close>

definition page_sample :: page where
  "page_sample =
     \<lparr>storage = \<lparr>items = Map.empty, denied = False, full = False\<rparr>, console = [],
      filters = default_filters, map_attached = True, filter_status = None,
      currentFilters = default_filters, approved = [], pending = [], markers = [],
      requests = [], search_results = Some \<lparr>content = Items [], display_block = False\<rparr>,
      notifications = Some [], sidebar = Some \<lparr>details = None, is_open = False\<rparr>\<rparr>"

definition query_sample :: "(string \<times> string) list \<Rightarrow> string" where
  "query_sample ps = join ''&'' (map (\<lambda>(k, v). k @ ''='' @ v) ps)"

text \<open>The invariant of the filter operations: the object and what is stored are well shaped.\<close>

definition filter_invariant :: "(string \<Rightarrow> jsval option) \<Rightarrow> page \<Rightarrow> bool" where
  "filter_invariant parse p \<longleftrightarrow> well_shaped (filters p) \<and> stored_well_shaped parse (storage p)"

text \<open>
  A page whose storage holds, under the filter key, the text of an object without
  properties; a button and a checkbox of the page; a run of three operations.
\<close>

definition page_stale :: page where
  "page_stale =
     page_sample\<lparr>storage := \<lparr>items = [storageKey \<mapsto> ''{}''], denied = False, full = False\<rparr>\<rparr>"

definition wheelchair_button :: button where
  "wheelchair_button = \<lparr>data_filter = Some ''wheelchair'', active = False\<rparr>"

definition cafe_checkbox :: checkbox where
  "cafe_checkbox = \<lparr>data_type = Some ''cafe'', checked = True\<rparr>"

definition ops_sample :: "filter_op list" where
  "ops_sample =
     [ToggleFilterButton wheelchair_button, ToggleTypeFilter cafe_checkbox, LoadSavedFilters]"

definition filters_sample :: jsval where
  "filters_sample =
     JObj [(''wheelchair'', JBool True), (''visual'', JBool False), (''hearing'', JBool False),
           (''cognitive'', JBool False), (''locationTypes'', JArr [JStr ''cafe''])]"

definition page_filtered :: page where
  "page_filtered = page_sample\<lparr>filters := filters_sample\<rparr>"

definition app_sized :: "string \<Rightarrow> app" where
  "app_sized ts = app_sample\<lparr>state := (state app_sample)\<lparr>textSize := JStr ts\<rparr>\<rparr>"

section \<open>AccessibilityMap: when a request settles\<close>

text \<open>
  Each of the three methods ends in
  \<open>fetch(url).then(response => response.json()).then(data => ...).catch(error => ...)\<close>.
  The promise of \<open>fetch\<close> is rejected (the network failed), or the promise of
  \<open>response.json()\<close> is rejected (the body is not JSON), or the second handler runs on
  the data; a rejection, and an exception thrown by the handler, go to the \<open>catch\<close>
  handler. The functions \<open>_settled\<close> below are what the chain does to the page once the
  reply is known.
\<close>

datatype fetch_reply = FetchRejected exn | BodyRejected exn | Body jsval

definition set_search_content :: "search_content \<Rightarrow> page \<Rightarrow> page" where
  "set_search_content c p = p\<lparr>search_results := map_option (\<lambda>v. v\<lparr>content := c\<rparr>) (search_results p)\<rparr>"

text \<open>\<open>data.results.forEach(result => ...)\<close>; \<open>shown\<close> are the items appended so far.\<close>

fun add_results :: "jsval list \<Rightarrow> search_item list \<Rightarrow> page \<Rightarrow> page outcome" where
  "add_results [] shown p = Returns p"
| "add_results (result # rest) shown p =
     eval_then (get_prop result ''name'') p (\<lambda>name.
     eval_then (js_or (get_prop result ''address'') (Val (JStr []))) p (\<lambda>address.
       let item = \<lparr>item_name = name, item_address = address, item_result = result\<rparr>
       in add_results rest (shown @ [item]) (set_search_content (Items (shown @ [item])) p)))"

definition searchLocations_then :: "jsval \<Rightarrow> page \<Rightarrow> page outcome" where
  "searchLocations_then data p =
     (let p1 = set_search_content (Items []) p in
      eval_then (get_prop data ''results'') p1 (\<lambda>results.
      eval_then (js_length results) p1 (\<lambda>n.
        if n = JNum (Finite 0) then Returns (set_search_content NoResults p1)
        else
          (case results of
             JArr rs \<Rightarrow>
               and_then (add_results rs [] p1) (\<lambda>p2.
               Returns (p2\<lparr>search_results :=
                 map_option (\<lambda>v. v\<lparr>display_block := True\<rparr>) (search_results p2)\<rparr>))
           | _ \<Rightarrow> Raises TypeError p1))))"

definition searchLocations_settled :: "fetch_reply \<Rightarrow> page \<Rightarrow> page outcome" where
  "searchLocations_settled reply p =
     try_catch
       (case reply of
          FetchRejected e \<Rightarrow> Raises e p
        | BodyRejected e \<Rightarrow> Raises e p
        | Body data \<Rightarrow> searchLocations_then data p)
       (\<lambda>e s. Returns
          (set_search_content SearchError (s\<lparr>console := console s @ [ConsoleError ''Search error:'' e]\<rparr>)))"

text \<open>
  \<open>createLocationMarker(location)\<close>. \<open>L.marker\<close> is Leaflet's and throws when it is
  given coordinates that it does not accept; \<open>accepts\<close> says which it accepts.
\<close>

definition createLocationMarker :: "(jsval \<Rightarrow> jsval \<Rightarrow> bool) \<Rightarrow> jsval \<Rightarrow> marker res" where
  "createLocationMarker accepts location =
     res_bind (getMarkerIconClass location) (\<lambda>iconClass.
     res_bind (get_prop location ''lat'') (\<lambda>lat.
     res_bind (get_prop location ''lng'') (\<lambda>lng.
       if accepts lat lng then
         Val \<lparr>marker_class = ''location-marker '' @ iconClass, marker_lat = lat,
              marker_lng = lng, marker_location = location\<rparr>
       else Throw LeafletError)))"

fun addMarkersToMap :: "(jsval \<Rightarrow> jsval \<Rightarrow> bool) \<Rightarrow> jsval list \<Rightarrow> page \<Rightarrow> page outcome" where
  "addMarkersToMap accepts [] p = Returns p"
| "addMarkersToMap accepts (location # rest) p =
     eval_then (createLocationMarker accepts location) p (\<lambda>m.
     eval_then (get_prop location ''is_approved'') p (\<lambda>is_approved.
       addMarkersToMap accepts rest
         ((if truthy is_approved then p\<lparr>approved := approved p @ [m]\<rparr>
           else p\<lparr>pending := pending p @ [m]\<rparr>)\<lparr>markers := markers p @ [m]\<rparr>)))"

definition loadLocations_then :: "(jsval \<Rightarrow> jsval \<Rightarrow> bool) \<Rightarrow> jsval \<Rightarrow> page \<Rightarrow> page outcome" where
  "loadLocations_then accepts data p =
     eval_then (get_prop data ''locations'') p (\<lambda>locations.
       case locations of
         JArr ls \<Rightarrow> addMarkersToMap accepts ls p
       | _ \<Rightarrow> Raises TypeError p)"

text \<open>\<open>showNotification(message, type)\<close> of the map.\<close>

definition showNotification :: "string \<Rightarrow> string \<Rightarrow> page \<Rightarrow> page" where
  "showNotification message type p =
     p\<lparr>notifications := map_option (\<lambda>ns. ns @ [(message, type)]) (notifications p)\<rparr>"

definition loadLocations_settled ::
  "(jsval \<Rightarrow> jsval \<Rightarrow> bool) \<Rightarrow> fetch_reply \<Rightarrow> page \<Rightarrow> page outcome" where
  "loadLocations_settled accepts reply p =
     try_catch
       (case reply of
          FetchRejected e \<Rightarrow> Raises e p
        | BodyRejected e \<Rightarrow> Raises e p
        | Body data \<Rightarrow> loadLocations_then accepts data p)
       (\<lambda>e s. Returns
          (showNotification ''Error loading locations. Please try again.'' ''error''
             (s\<lparr>console := console s @ [ConsoleError ''Error loading locations:'' e]\<rparr>)))"

text \<open>
  \<open>createLocationDetailsHTML(location)\<close> with \<open>renderReviews\<close>: the values that the
  markup shows. \<open>map\<close> is a method of arrays only.
\<close>

definition feature_table :: "(string \<times> string) list" where
  "feature_table =
     [(''Wheelchair ramp'', ''has_ramp''), (''Accessible toilet'', ''has_accessible_wc''),
      (''Accessible parking'', ''has_accessible_parking''),
      (''Accessible entrance'', ''has_accessible_entrance''), (''Braille'', ''has_braille''),
      (''Audio guidance'', ''has_audio_guidance''), (''Staff assistance'', ''has_staff_assistance'')]"

definition photo_view :: "jsval \<Rightarrow> jsval \<Rightarrow> (jsval \<times> jsval) res" where
  "photo_view location photo =
     res_bind (get_prop photo ''filename'') (\<lambda>filename.
     res_bind (js_or (get_prop photo ''description'') (get_prop location ''name'')) (\<lambda>alt.
     Val (filename, alt)))"

definition renderReviews :: "jsval \<Rightarrow> jsval list res" where
  "renderReviews reviews =
     res_bind (js_length reviews) (\<lambda>n.
       if n = JNum (Finite 0) then Val []
       else
         (case reviews of
            JArr rs \<Rightarrow> res_all (map (\<lambda>review. res_bind (get_prop review ''author_name'') (\<lambda>a. Val review)) rs)
          | _ \<Rightarrow> Throw TypeError))"

definition createLocationDetailsHTML :: "jsval \<Rightarrow> details_view res" where
  "createLocationDetailsHTML location =
     res_bind (res_all (map (\<lambda>(label, key).
                 res_bind (get_prop location key) (\<lambda>v. Val (label, truthy v))) feature_table)) (\<lambda>features.
     res_bind (get_prop location ''photos'') (\<lambda>photos.
     res_bind
       (if \<not> truthy photos then Val None
        else
          res_bind (js_length photos) (\<lambda>n.
          res_bind (js_gt_zero n) (\<lambda>positive.
            if truthy positive then
              (case photos of
                 JArr xs \<Rightarrow> res_bind (res_all (map (photo_view location) xs)) (\<lambda>vs. Val (Some vs))
               | _ \<Rightarrow> Throw TypeError)
            else Val None))) (\<lambda>photosHTML.
     res_bind (get_prop location ''name'') (\<lambda>name.
     res_bind (js_or (get_prop location ''address'') (Val (JStr ''No address provided''))) (\<lambda>address.
     res_bind (js_or (get_prop location ''description'') (Val (JStr ''No description provided''))) (\<lambda>description.
     res_bind (js_or (get_prop location ''reviews'') (Val (JArr []))) (\<lambda>reviews.
     res_bind (renderReviews reviews) (\<lambda>shown.
       Val \<lparr>shown_name = name, shown_address = address, shown_features = features,
            shown_description = description, shown_photos = photosHTML,
            shown_reviews = shown\<rparr>))))))))"

definition showLocationDetails_then :: "jsval \<Rightarrow> page \<Rightarrow> page outcome" where
  "showLocationDetails_then data p =
     (case sidebar p of
        None \<Rightarrow> Returns p
      | Some bar \<Rightarrow>
          eval_then (get_prop data ''location'') p (\<lambda>location.
          eval_then (createLocationDetailsHTML location) p (\<lambda>view.
          Returns (p\<lparr>sidebar := Some \<lparr>details = Some view, is_open = True\<rparr>\<rparr>))))"

definition showLocationDetails_settled :: "fetch_reply \<Rightarrow> page \<Rightarrow> page outcome" where
  "showLocationDetails_settled reply p =
     try_catch
       (case reply of
          FetchRejected e \<Rightarrow> Raises e p
        | BodyRejected e \<Rightarrow> Raises e p
        | Body data \<Rightarrow> showLocationDetails_then data p)
       (\<lambda>e s. Returns
          (showNotification ''Error loading location details. Please try again.'' ''error''
             (s\<lparr>console := console s @ [ConsoleError ''Error loading location details:'' e]\<rparr>)))"

text \<open>
  The request shapes of the map: the fixed text of the three template literals that
  are passed to \<open>fetch\<close>, and the shape of a URL, the one of them that it starts with.
\<close>

definition api_request_shapes :: "string set" where
  "api_request_shapes = {search_endpoint, locations_endpoint, location_endpoint}"

definition request_shape :: "string \<Rightarrow> string option" where
  "request_shape url =
     (if prefix search_endpoint url then Some search_endpoint
      else if prefix locations_endpoint url then Some locations_endpoint
      else if prefix location_endpoint url then Some location_endpoint
      else None)"

fun requests_of :: "page outcome \<Rightarrow> string list" where
  "requests_of (Returns p) = requests p"
| "requests_of (Raises e p) = requests p"
| "requests_of Outside = []"

text \<open>
  Points of the graphs of \<open>encodeURIComponent\<close> and of the text of a number, and one
  search, one listing and one details request made from the sample page.
\<close>

definition encode_sample :: "string \<Rightarrow> string option" where
  "encode_sample q = (if q = ''cafe'' then Some ''cafe'' else None)"

definition num_text_sample :: "number \<Rightarrow> string" where
  "num_text_sample n = (if n = Finite 7 then ''7'' else [])"

definition three_requests :: "page outcome" where
  "three_requests =
     and_then (searchLocations encode_sample ''cafe'' page_sample) (\<lambda>p1.
     and_then (loadLocations query_sample p1) (\<lambda>p2.
     showLocationDetails num_text_sample (JNum (Finite 7)) p2))"

text \<open>
  An application object that has the preferences of an earlier visit in its storage
  and a malformed \<open>data-preferences\<close> attribute on the page.
\<close>

definition app_malformed :: app where
  \<open>app_malformed =
     \<lparr>storage = \<lparr>items = [''accessibility_preferences'' \<mapsto> ''{"highContrast":true,"textSize":"large"}''],
                 denied = False, full = False\<rparr>,
      console = [],
      state = initial_app_state,
      body_classes = {}, announcer = None, user_preferences_data = Some ''{''\<rparr>\<close>

text \<open>
  For the statements about errors: the state after \<open>console.warn(message, e)\<close>, when a
  write to the storage throws, and when reading a key and parsing its text throws.
\<close>

definition warned :: "string \<Rightarrow> exn \<Rightarrow> 'a browser_scheme \<Rightarrow> 'a browser_scheme" where
  "warned message e s = s\<lparr>console := console s @ [ConsoleWarn message e]\<rparr>"

definition write_fails :: "localStorage \<Rightarrow> bool" where
  "write_fails st \<longleftrightarrow> denied st \<or> full st"

definition read_fails :: "(string \<Rightarrow> jsval option) \<Rightarrow> string \<Rightarrow> localStorage \<Rightarrow> bool" where
  "read_fails parse k st \<longleftrightarrow>
     denied st \<or> (case items st k of None \<Rightarrow> False | Some sv \<Rightarrow> sv \<noteq> [] \<and> parse sv = None)"

definition attribute_fails :: "(string \<Rightarrow> jsval option) \<Rightarrow> app \<Rightarrow> bool" where
  "attribute_fails parse a \<longleftrightarrow>
     (case user_preferences_data a of None \<Rightarrow> False | Some d \<Rightarrow> d \<noteq> [] \<and> parse d = None)"

text \<open>A page and an application object whose storage is denied.\<close>

definition page_denied :: page where
  "page_denied = page_sample\<lparr>storage := \<lparr>items = Map.empty, denied = True, full = False\<rparr>\<rparr>"

definition app_denied :: app where
  "app_denied = app_sample\<lparr>storage := \<lparr>items = Map.empty, denied = True, full = False\<rparr>\<rparr>"

text \<open>
  A page with active filters and an application object with the text size \<open>large\<close>,
  each over a storage that is full; the storage of the application holds the
  preferences of an earlier visit, with the text size \<open>xl\<close>.
\<close>

definition page_full :: page where
  "page_full = page_filtered\<lparr>storage := \<lparr>items = Map.empty, denied = False, full = True\<rparr>\<rparr>"

definition app_full :: app where
  \<open>app_full =
     app_sample\<lparr>storage :=
       \<lparr>items = [''accessibility_preferences'' \<mapsto> ''{"highContrast":true,"textSize":"xl"}''],
        denied = False, full = True\<rparr>\<rparr>\<close>

text \<open>The value of \<open>v || d\<close> for two values.\<close>

definition or_default :: "jsval \<Rightarrow> jsval \<Rightarrow> jsval" where
  "or_default v d = (if truthy v then v else d)"

text \<open>
  \<open>loadPreferences\<close> in two steps: the stored preferences, then the attribute. The first
  step returns with at most \<open>highContrast\<close> and \<open>textSize\<close> changed, or throws from the
  state it started in.
\<close>

definition stored_step :: "(string \<Rightarrow> jsval option) \<Rightarrow> app \<Rightarrow> app outcome" where
  "stored_step parse a =
     eval_then (getItem (storage a) ''accessibility_preferences'') a (\<lambda>saved.
          (case saved of
             None \<Rightarrow> Returns a
           | Some sv \<Rightarrow>
               if sv = [] then Returns a
               else
                 eval_then (JSON_parse parse sv) a (\<lambda>preferences.
                 eval_then (js_or (get_prop preferences ''highContrast'') (Val (JBool False))) a (\<lambda>hc.
                 let a1 = a\<lparr>state := (state a)\<lparr>highContrast := hc\<rparr>\<rparr> in
                 eval_then (js_or (get_prop preferences ''textSize'') (Val (JStr ''normal''))) a1 (\<lambda>ts.
                 Returns (a1\<lparr>state := (state a1)\<lparr>textSize := ts\<rparr>\<rparr>))))))"

definition attribute_step :: "(string \<Rightarrow> jsval option) \<Rightarrow> app \<Rightarrow> app outcome" where
  "attribute_step parse a2 =
     (case user_preferences_data a2 of
               None \<Rightarrow> Returns a2
             | Some p \<Rightarrow>
                 if p = [] then Returns a2
                 else
                   eval_then (JSON_parse parse p) a2 (\<lambda>up.
                   Returns (a2\<lparr>state := (state a2)\<lparr>userPreferences := up\<rparr>\<rparr>)))"

text \<open>The state after \<open>console.error(message, e)\<close>, and the error of a rejected reply.\<close>

definition errored :: "string \<Rightarrow> exn \<Rightarrow> 'a browser_scheme \<Rightarrow> 'a browser_scheme" where
  "errored message e s = s\<lparr>console := console s @ [ConsoleError message e]\<rparr>"

fun rejection :: "fetch_reply \<Rightarrow> exn option" where
  "rejection (FetchRejected e) = Some e"
| "rejection (BodyRejected e) = Some e"
| "rejection (Body data) = None"

section \<open>FormValidator\<close>

text \<open>
  A form field as the validator reads it: \<open>type\<close>, \<open>value\<close>, \<open>checked\<close>, \<open>name\<close>,
  whether it has the attribute \<open>required\<close>, its \<open>dataset\<close>, and \<open>minLength\<close> and
  \<open>maxLength\<close> (\<open>-1\<close> when the attribute is not set). Of the document the validator
  changes the container of the field: its classes, the texts of the error elements
  in it, and \<open>aria-invalid\<close> of the field (the \<open>id\<close> of an error element and
  \<open>aria-describedby\<close> are left out). The options are the default ones.
\<close>

record field =
  field_type :: string
  field_value :: string
  field_checked :: bool
  field_name :: string
  has_required :: bool
  dataset :: "string \<rightharpoonup> string"
  minLength :: int
  maxLength :: int

record field_view =
  container_classes :: "string set"
  error_messages :: "string list"
  aria_invalid :: "string option"

definition highlightClass :: string where
  "highlightClass = ''has-error''"

definition successClass :: string where
  "successClass = ''is-valid''"

text \<open>
  What the rules take from the browser: \<open>parseFloat\<close>; the global \<open>isFinite\<close> on a
  string; whether the two regular expressions of the \<open>email\<close> and \<open>password\<close> rules
  match; the text of a number; and, for the \<open>match\<close> rule,
  \<open>this.form.querySelector(`[name="${param}"]`)\<close>: the value of the first such field
  of the form, \<open>None\<close> when there is none, an exception when the selector is malformed.
\<close>

record validator_env =
  env_parseFloat :: "string \<Rightarrow> number"
  env_isFinite :: "string \<Rightarrow> bool"
  env_email_test :: "string \<Rightarrow> bool"
  env_password_test :: "string \<Rightarrow> bool"
  env_num_text :: "number \<Rightarrow> string"
  env_named_field :: "string \<Rightarrow> string option res"

text \<open>
  \<open>String.prototype.trim\<close>. A string is a list of characters with codes below 256;
  among these, the white space and line terminators of JavaScript are the codes 9 to
  13, 32 and 160.
\<close>

definition is_js_space :: "char \<Rightarrow> bool" where
  "is_js_space c \<longleftrightarrow>
     c \<in> set [CHR 0x09, CHR 0x0A, CHR 0x0B, CHR 0x0C, CHR 0x0D, CHR 0x20, CHR 0xA0]"

definition trim :: "string \<Rightarrow> string" where
  "trim s = rev (dropWhile is_js_space (rev (dropWhile is_js_space s)))"

record rule_entry =
  validator :: "string \<Rightarrow> jsval \<Rightarrow> bool res"
  message :: "jsval \<Rightarrow> string res"

text \<open>\<open>value === '' || value.length >= param\<close> and \<open><=\<close>, for a number \<open>param\<close>.\<close>

definition length_validator ::
  "(number \<Rightarrow> number \<Rightarrow> bool) \<Rightarrow> string \<Rightarrow> jsval \<Rightarrow> bool res" where
  "length_validator cmp v param =
     (if v = [] then Val True
      else (case param of JNum n \<Rightarrow> Val (cmp (Finite (real (length v))) n) | _ \<Rightarrow> Beyond))"

text \<open>\<open>this.validationRules[name]\<close>.\<close>

definition validationRules :: "validator_env \<Rightarrow> string \<Rightarrow> rule_entry option" where
  "validationRules env name =
     (if name = ''required'' then
        Some \<lparr>validator = (\<lambda>v param. Val (trim v \<noteq> [])),
              message = (\<lambda>param. Val ''This field is required.'')\<rparr>
      else if name = ''email'' then
        Some \<lparr>validator = (\<lambda>v param. Val (v = [] \<or> env_email_test env v)),
              message = (\<lambda>param. Val ''Please enter a valid email address.'')\<rparr>
      else if name = ''minLength'' then
        Some \<lparr>validator = length_validator num_ge,
              message = (\<lambda>param. res_bind (to_text_num (env_num_text env) param) (\<lambda>t.
                Val (''This field must be at least '' @ t @ '' characters long.'')))\<rparr>
      else if name = ''maxLength'' then
        Some \<lparr>validator = length_validator num_le,
              message = (\<lambda>param. res_bind (to_text_num (env_num_text env) param) (\<lambda>t.
                Val (''This field cannot exceed '' @ t @ '' characters.'')))\<rparr>
      else if name = ''password'' then
        Some \<lparr>validator = (\<lambda>v param. Val (v = [] \<or> env_password_test env v)),
              message = (\<lambda>param. Val (''Password must be at least 8 characters with at least one ''
                @ ''uppercase letter, one lowercase letter, and one digit.''))\<rparr>
      else if name = ''numeric'' then
        Some \<lparr>validator = (\<lambda>v param.
                Val (v = [] \<or> \<not> isNaN (env_parseFloat env v) \<and> env_isFinite env v)),
              message = (\<lambda>param. Val ''Please enter a valid number.'')\<rparr>
      else if name = ''match'' then
        Some \<lparr>validator = (\<lambda>v param.
                res_bind (to_text_num (env_num_text env) param) (\<lambda>name.
                res_bind (env_named_field env name) (\<lambda>matchField.
                Val (case matchField of None \<Rightarrow> False | Some other \<Rightarrow> v = other)))),
              message = (\<lambda>param. res_bind (to_text_num (env_num_text env) param) (\<lambda>t.
                Val (''This field must match '' @ t @ ''.'')))\<rparr>
      else if name = ''coordinates'' then
        Some \<lparr>validator = (\<lambda>v param. Val (coordinates_validator (env_parseFloat env) v param)),
              message = (\<lambda>param.
                Val (''Please enter valid ''
                  @ (if param = JStr ''lat'' then ''latitude'' else ''longitude'')
                  @ '' within Timisoara.''))\<rparr>
      else None)"

record validation =
  rule :: string
  param :: jsval

definition getFieldValidations :: "field \<Rightarrow> validation list" where
  "getFieldValidations f =
     (if has_required f \<or> dataset f ''required'' = Some ''true''
      then [\<lparr>rule = ''required'', param = JUndefined\<rparr>] else [])
   @ (if field_type f = ''email'' then [\<lparr>rule = ''email'', param = JUndefined\<rparr>] else [])
   @ (if dataset f ''type'' = Some ''password'' \<or> field_type f = ''password''
      then [\<lparr>rule = ''password'', param = JUndefined\<rparr>] else [])
   @ (if dataset f ''type'' = Some ''numeric'' \<or> field_type f = ''number''
      then [\<lparr>rule = ''numeric'', param = JUndefined\<rparr>] else [])
   @ (if minLength f > 0
      then [\<lparr>rule = ''minLength'', param = JNum (Finite (real_of_int (minLength f)))\<rparr>] else [])
   @ (if maxLength f > 0 \<and> maxLength f < 1000
      then [\<lparr>rule = ''maxLength'', param = JNum (Finite (real_of_int (maxLength f)))\<rparr>] else [])
   @ (case dataset f ''match'' of
        None \<Rightarrow> []
      | Some m \<Rightarrow> if m = [] then [] else [\<lparr>rule = ''match'', param = JStr m\<rparr>])
   @ (if field_name f = ''lat'' \<or> dataset f ''type'' = Some ''lat''
      then [\<lparr>rule = ''coordinates'', param = JStr ''lat''\<rparr>] else [])
   @ (if field_name f = ''lng'' \<or> dataset f ''type'' = Some ''lng''
      then [\<lparr>rule = ''coordinates'', param = JStr ''lng''\<rparr>] else [])"

definition clearFieldValidation :: "field_view \<Rightarrow> field_view" where
  "clearFieldValidation view =
     view\<lparr>container_classes := container_classes view - {highlightClass, successClass},
          error_messages := [], aria_invalid := None\<rparr>"

definition showFieldError :: "string \<Rightarrow> field_view \<Rightarrow> field_view" where
  "showFieldError msg view =
     view\<lparr>container_classes := insert highlightClass (container_classes view) - {successClass},
          error_messages := error_messages view @ [msg], aria_invalid := Some ''true''\<rparr>"

definition showFieldSuccess :: "field_view \<Rightarrow> field_view" where
  "showFieldSuccess view =
     view\<lparr>container_classes := insert successClass (container_classes view) - {highlightClass},
          aria_invalid := Some ''false''\<rparr>"

text \<open>The value that \<open>validateField\<close> checks: of a checkbox, the text of \<open>checked\<close>.\<close>

definition field_text :: "field \<Rightarrow> string" where
  "field_text f =
     (if field_type f = ''checkbox'' then (if field_checked f then ''true'' else ''false'')
      else field_value f)"

text \<open>The loop of \<open>validateField\<close> over the validations, and the method.\<close>

fun check_validations ::
  "validator_env \<Rightarrow> field \<Rightarrow> string \<Rightarrow> validation list \<Rightarrow> field_view \<Rightarrow> (bool \<times> field_view) res" where
  "check_validations env f v [] view = Val (True, showFieldSuccess view)"
| "check_validations env f v (x # xs) view =
     (case validationRules env (rule x) of
        None \<Rightarrow> check_validations env f v xs view
      | Some r \<Rightarrow>
          res_bind (validator r v (param x)) (\<lambda>isValid.
            if \<not> isValid then
              res_bind (message r (param x)) (\<lambda>msg.
                let msg' = (case dataset f (rule x @ ''Message'') of
                              None \<Rightarrow> msg
                            | Some customMessage \<Rightarrow> if customMessage = [] then msg else customMessage)
                in Val (False, showFieldError msg' view))
            else check_validations env f v xs view))"

definition validateField :: "validator_env \<Rightarrow> field \<Rightarrow> field_view \<Rightarrow> (bool \<times> field_view) res" where
  "validateField env f view =
     check_validations env f (field_text f) (getFieldValidations f) (clearFieldValidation view)"

text \<open>A required text field that holds two spaces, and a browser to validate it in.\<close>

definition field_sample :: field where
  "field_sample =
     \<lparr>field_type = ''text'', field_value = ''  '', field_checked = False, field_name = ''name'',
      has_required = True, dataset = Map.empty, minLength = -1, maxLength = -1\<rparr>"

definition env_sample :: validator_env where
  "env_sample =
     \<lparr>env_parseFloat = parseFloat_sample, env_isFinite = (\<lambda>s. \<not> isNaN (parseFloat_sample s)),
      env_email_test = (\<lambda>s. False), env_password_test = (\<lambda>s. False),
      env_num_text = num_text_sample, env_named_field = (\<lambda>n. Val None)\<rparr>"

definition view_sample :: field_view where
  "view_sample = \<lparr>container_classes = {''form-group''}, error_messages = [], aria_invalid = None\<rparr>"

section \<open>Properties\<close>

subsection \<open>Class names\<close>

lemma split_spaces_append:
  "CHR '' '' \<notin> set t \<Longrightarrow> split_spaces acc (t @ r) = split_spaces (acc @ t) r"
  by (induction t arbitrary: acc) auto

lemma split_spaces_token:
  assumes "CHR '' '' \<notin> set t" "t \<noteq> []"
  shows "split_spaces [] (t @ CHR '' '' # r) = t # split_spaces [] r"
  using assms by (simp add: split_spaces_append)

lemma classList_join:
  "\<forall>t \<in> set ts. t \<noteq> [] \<and> CHR '' '' \<notin> set t \<Longrightarrow> classList (join '' '' ts) = ts"
proof (induction ts)
  case Nil
  then show ?case by (simp add: classList_def)
next
  case (Cons x ts)
  show ?case
  proof (cases ts)
    case Nil
    then show ?thesis
      using Cons.prems split_spaces_append[of x "[]" "[]"] by (simp add: classList_def)
  next
    case (Cons y ys)
    then show ?thesis
      using Cons.prems Cons.IH split_spaces_token[of x "join '' '' (y # ys)"]
      by (simp add: classList_def)
  qed
qed

subsection \<open>Marker classes\<close>

lemma js_or_Val: "js_or (Val a) (Val b) = Val (if truthy a then a else b)"
  by (simp add: js_or_def)

lemma truthy_if_or: "truthy (if truthy a then a else b) = (truthy a \<or> truthy b)"
  by simp

lemma flag_truthy: "flag ps k = truthy (prop_of ps k)"
  by (simp add: flag_def prop_of_def split: option.splits)

lemma get_prop_obj: "get_prop (JObj ps) k = Val (prop_of ps k)"
  by (simp add: prop_of_def)

lemma getMarkerIconClass_obj:
  "getMarkerIconClass (JObj ps) =
     Val (join '' '' (marker_classes
       (flag ps ''has_ramp'' \<or> flag ps ''has_accessible_entrance'' \<or> flag ps ''has_accessible_parking'')
       (flag ps ''has_braille'' \<or> flag ps ''has_audio_guidance'')
       (flag ps ''has_staff_assistance'')
       (flag ps ''has_audio_guidance'')
       (flag ps ''is_approved'')))"
  unfolding getMarkerIconClass_def get_prop_obj js_or_Val res_bind.simps Let_def
    truthy_if_or flag_truthy marker_classes_def
  by simp

lemma classList_marker_classes:
  "classList (join '' '' (marker_classes W V C H A)) = marker_classes W V C H A"
  by (rule classList_join) (auto simp: marker_classes_def)

text \<open>
  Claim C8. For a location record (an object; a flag holds when its property is truthy),
  the class string of \<open>getMarkerIconClass\<close> has the token \<open>fully-accessible\<close> exactly
  when the wheelchair flag (ramp, accessible entrance or accessible parking), the
  visual flag (braille or audio guidance), staff assistance and audio guidance all
  hold; then none of \<open>wheelchair\<close>, \<open>visual\<close>, \<open>cognitive\<close>, \<open>hearing\<close> occurs, and
  otherwise each of them occurs exactly when its flag holds; \<open>pending\<close> occurs exactly
  when \<open>is_approved\<close> does not hold, which for a boolean \<open>is_approved\<close> means that it
  is false.
\<close>

theorem getMarkerIconClass_classes:
  assumes "location = JObj ps"
  shows "\<exists>cls. getMarkerIconClass location = Val cls \<and>
    (let W = flag ps ''has_ramp'' \<or> flag ps ''has_accessible_entrance''
               \<or> flag ps ''has_accessible_parking'';
         V = flag ps ''has_braille'' \<or> flag ps ''has_audio_guidance'';
         C = flag ps ''has_staff_assistance'';
         H = flag ps ''has_audio_guidance'';
         full = W \<and> V \<and> C \<and> H
     in (''fully-accessible'' \<in> set (classList cls) \<longleftrightarrow> full)
      \<and> (''wheelchair'' \<in> set (classList cls) \<longleftrightarrow> \<not> full \<and> W)
      \<and> (''visual'' \<in> set (classList cls) \<longleftrightarrow> \<not> full \<and> V)
      \<and> (''cognitive'' \<in> set (classList cls) \<longleftrightarrow> \<not> full \<and> C)
      \<and> (''hearing'' \<in> set (classList cls) \<longleftrightarrow> \<not> full \<and> H)
      \<and> (''pending'' \<in> set (classList cls) \<longleftrightarrow> \<not> flag ps ''is_approved'')
      \<and> (\<forall>b. map_of ps ''is_approved'' = Some (JBool b) \<longrightarrow>
            (''pending'' \<in> set (classList cls) \<longleftrightarrow> b = False)))"
  unfolding assms getMarkerIconClass_obj
  apply (rule exI, rule conjI, rule refl)
  unfolding classList_marker_classes Let_def
  by (auto simp: marker_classes_def flag_def)

theorem getMarkerIconClass_classes_witness:
  "getMarkerIconClass (JObj [(''has_ramp'', JBool True), (''has_audio_guidance'', JBool True),
      (''has_staff_assistance'', JBool True), (''is_approved'', JBool False)])
     = Val ''marker fully-accessible pending''
   \<and> ''fully-accessible'' \<in> set (classList ''marker fully-accessible pending'')
   \<and> ''wheelchair'' \<notin> set (classList ''marker fully-accessible pending'')
   \<and> ''pending'' \<in> set (classList ''marker fully-accessible pending'')"
  using getMarkerIconClass_classes[OF refl, of "[(''has_ramp'', JBool True),
      (''has_audio_guidance'', JBool True), (''has_staff_assistance'', JBool True),
      (''is_approved'', JBool False)]"]
  by (simp add: getMarkerIconClass_obj marker_classes_def flag_def classList_def)

subsection \<open>The coordinates rule\<close>

lemma double_literals:
  "45.70 < double_45_70 \<and> double_45_70 - 45.70 < 1 / 2 ^ 47"
  "double_45_80 < 45.80 \<and> 45.80 - double_45_80 < 1 / 2 ^ 47"
  "21.10 < double_21_10 \<and> double_21_10 - 21.10 < 1 / 2 ^ 48"
  "21.35 < double_21_35 \<and> double_21_35 - 21.35 < 1 / 2 ^ 48"
  by (simp_all add: double_45_70_def double_45_80_def double_21_10_def double_21_35_def)

text \<open>
  Claim C1. On a non-empty value, the coordinates rule with parameter \<open>lat\<close> accepts
  exactly when the value parses to a number \<open>num\<close> with \<open>45.70 <= num <= 45.80\<close>, and
  with parameter \<open>lng\<close> exactly when it parses to a number with
  \<open>21.10 <= num <= 21.35\<close>, the four bounds being the numbers that these literals
  denote in the script; every other non-empty value (one that parses to NaN, to an
  infinity or to a number outside the bounds) is rejected.
\<close>

theorem coordinates_validator_bounds:
  assumes "v \<noteq> []"
  shows "(coordinates_validator parseFloat v (JStr ''lat'') \<longleftrightarrow>
            (\<exists>num. parseFloat v = Finite num \<and> double_45_70 \<le> num \<and> num \<le> double_45_80))
       \<and> (coordinates_validator parseFloat v (JStr ''lng'') \<longleftrightarrow>
            (\<exists>num. parseFloat v = Finite num \<and> double_21_10 \<le> num \<and> num \<le> double_21_35))"
  using assms
  by (cases "parseFloat v") (simp_all add: coordinates_validator_def num_le_def Let_def)

lemma finite_between:
  "(\<exists>num. Finite x = Finite num \<and> lo \<le> num \<and> num \<le> hi) \<longleftrightarrow> lo \<le> x \<and> x \<le> hi"
  by auto

theorem coordinates_validator_bounds_witness:
  "''45.75'' \<noteq> [] \<and> coordinates_validator parseFloat_sample ''45.75'' (JStr ''lat'')
   \<and> \<not> coordinates_validator parseFloat_sample ''45.75'' (JStr ''lng'')
   \<and> ''21.35'' \<noteq> [] \<and> coordinates_validator parseFloat_sample ''21.35'' (JStr ''lng'')
   \<and> ''21.36'' \<noteq> [] \<and> \<not> coordinates_validator parseFloat_sample ''21.36'' (JStr ''lng'')
   \<and> \<not> coordinates_validator parseFloat_sample ''46'' (JStr ''lat'')
   \<and> \<not> coordinates_validator parseFloat_sample ''Infinity'' (JStr ''lat'')
   \<and> \<not> coordinates_validator parseFloat_sample ''abc'' (JStr ''lat'')"
proof -
  have p1: "parseFloat_sample ''45.75'' = Finite 45.75"
    and p2: "parseFloat_sample ''21.35'' = Finite double_21_35"
    and p3: "parseFloat_sample ''21.36'' = Finite (1503076375634903 / 2 ^ 46)"
    and p4: "parseFloat_sample ''46'' = Finite 46"
    and p5: "parseFloat_sample ''Infinity'' = PosInfinity"
    and p6: "parseFloat_sample ''abc'' = NaN"
    by (simp_all add: parseFloat_sample_def)
  note t1 = coordinates_validator_bounds[of "''45.75''" parseFloat_sample]
  note t2 = coordinates_validator_bounds[of "''21.35''" parseFloat_sample]
  note t3 = coordinates_validator_bounds[of "''21.36''" parseFloat_sample]
  note t4 = coordinates_validator_bounds[of "''46''" parseFloat_sample]
  note t5 = coordinates_validator_bounds[of "''Infinity''" parseFloat_sample]
  note t6 = coordinates_validator_bounds[of "''abc''" parseFloat_sample]
  have c1: "coordinates_validator parseFloat_sample ''45.75'' (JStr ''lat'')"
    and c2: "\<not> coordinates_validator parseFloat_sample ''45.75'' (JStr ''lng'')"
    using t1 unfolding p1 finite_between
    by (simp_all add: double_45_70_def double_45_80_def double_21_10_def double_21_35_def)
  have c3: "coordinates_validator parseFloat_sample ''21.35'' (JStr ''lng'')"
    using t2 unfolding p2 finite_between by (simp add: double_21_10_def double_21_35_def)
  have c4: "\<not> coordinates_validator parseFloat_sample ''21.36'' (JStr ''lng'')"
    using t3 unfolding p3 finite_between by (simp add: double_21_10_def double_21_35_def)
  have c5: "\<not> coordinates_validator parseFloat_sample ''46'' (JStr ''lat'')"
    using t4 unfolding p4 finite_between by (simp add: double_45_70_def double_45_80_def)
  have c6: "\<not> coordinates_validator parseFloat_sample ''Infinity'' (JStr ''lat'')"
    using t5 unfolding p5 by simp
  have c7: "\<not> coordinates_validator parseFloat_sample ''abc'' (JStr ''lat'')"
    using t6 unfolding p6 by simp
  from c1 c2 c3 c4 c5 c6 c7 show ?thesis by simp
qed

subsection \<open>Text size and preferences\<close>

lemma savePreferences_eq:
  "savePreferences sf a = Returns
     (if denied (storage a) then
        a\<lparr>console := console a @ [ConsoleWarn ''Could not save preferences to localStorage:'' SecurityError]\<rparr>
      else if full (storage a) then
        a\<lparr>console := console a @ [ConsoleWarn ''Could not save preferences to localStorage:'' QuotaExceededError]\<rparr>
      else a\<lparr>storage := (storage a)\<lparr>items := (items (storage a))(''accessibility_preferences'' \<mapsto>
             sf (JObj [(''highContrast'', highContrast (state a)), (''textSize'', textSize (state a))]))\<rparr>\<rparr>)"
  by (simp add: savePreferences_def setItem_def)

lemma savePreferences_state:
  "\<exists>a'. savePreferences sf a = Returns a' \<and> state a' = state a \<and> body_classes a' = body_classes a"
  by (simp add: savePreferences_eq)

lemma increaseTextSize_normal:
  "textSize (state a) = JStr ''normal'' \<Longrightarrow>
   \<exists>a1. increaseTextSize sf a = Returns a1 \<and> state a1 = (state a)\<lparr>textSize := JStr ''large''\<rparr>"
  by (simp add: increaseTextSize_def savePreferences_eq Let_def announceAccessibilityChange_def)

lemma increaseTextSize_large:
  "textSize (state a) = JStr ''large'' \<Longrightarrow>
   \<exists>a1. increaseTextSize sf a = Returns a1 \<and> state a1 = (state a)\<lparr>textSize := JStr ''xl''\<rparr>"
  by (simp add: increaseTextSize_def savePreferences_eq Let_def announceAccessibilityChange_def)

lemma increaseTextSize_xl:
  "textSize (state a) = JStr ''xl'' \<Longrightarrow>
   \<exists>a1. increaseTextSize sf a = Returns a1 \<and> state a1 = state a \<and> body_classes a1 = body_classes a"
  by (simp add: increaseTextSize_def savePreferences_eq Let_def announceAccessibilityChange_def)

lemma decreaseTextSize_xl:
  "textSize (state a) = JStr ''xl'' \<Longrightarrow>
   \<exists>a1. decreaseTextSize sf a = Returns a1 \<and> state a1 = (state a)\<lparr>textSize := JStr ''large''\<rparr>"
  by (simp add: decreaseTextSize_def savePreferences_eq Let_def announceAccessibilityChange_def)

lemma decreaseTextSize_large:
  "textSize (state a) = JStr ''large'' \<Longrightarrow>
   \<exists>a1. decreaseTextSize sf a = Returns a1 \<and> state a1 = (state a)\<lparr>textSize := JStr ''normal''\<rparr>"
  by (simp add: decreaseTextSize_def savePreferences_eq Let_def announceAccessibilityChange_def)

lemma decreaseTextSize_normal:
  "textSize (state a) = JStr ''normal'' \<Longrightarrow>
   \<exists>a1. decreaseTextSize sf a = Returns a1 \<and> state a1 = state a \<and> body_classes a1 = body_classes a"
  by (simp add: decreaseTextSize_def savePreferences_eq Let_def announceAccessibilityChange_def)

text \<open>
  Claim C9. From the text size \<open>normal\<close> or \<open>large\<close>, \<open>increaseTextSize\<close> followed by
  \<open>decreaseTextSize\<close> gives back the original \<open>this.state\<close>; at \<open>xl\<close>,
  \<open>increaseTextSize\<close> leaves \<open>this.state\<close> and the classes of the body as they are, and
  so does \<open>decreaseTextSize\<close> at \<open>normal\<close>; both methods return, and keep a text size
  that is one of the three within the three.
\<close>

theorem text_size_steps:
  "(textSize (state a) \<in> {JStr ''normal'', JStr ''large''} \<longrightarrow>
      (\<exists>a1 a2. increaseTextSize sf a = Returns a1 \<and> decreaseTextSize sf a1 = Returns a2
                \<and> state a2 = state a))
 \<and> (textSize (state a) = JStr ''xl'' \<longrightarrow>
      (\<exists>a1. increaseTextSize sf a = Returns a1 \<and> state a1 = state a
             \<and> body_classes a1 = body_classes a))
 \<and> (textSize (state a) = JStr ''normal'' \<longrightarrow>
      (\<exists>a1. decreaseTextSize sf a = Returns a1 \<and> state a1 = state a
             \<and> body_classes a1 = body_classes a))
 \<and> (textSize (state a) \<in> text_sizes \<longrightarrow>
      (\<exists>a1. increaseTextSize sf a = Returns a1 \<and> textSize (state a1) \<in> text_sizes)
    \<and> (\<exists>a1. decreaseTextSize sf a = Returns a1 \<and> textSize (state a1) \<in> text_sizes))"
proof (intro conjI impI)
  assume "textSize (state a) \<in> {JStr ''normal'', JStr ''large''}"
  then consider "textSize (state a) = JStr ''normal''" | "textSize (state a) = JStr ''large''"
    by auto
  then show "\<exists>a1 a2. increaseTextSize sf a = Returns a1 \<and> decreaseTextSize sf a1 = Returns a2
                \<and> state a2 = state a"
  proof cases
    case 1
    obtain a1 where a1: "increaseTextSize sf a = Returns a1"
      "state a1 = (state a)\<lparr>textSize := JStr ''large''\<rparr>"
      using increaseTextSize_normal[OF 1] by blast
    obtain a2 where "decreaseTextSize sf a1 = Returns a2"
      "state a2 = (state a1)\<lparr>textSize := JStr ''normal''\<rparr>"
      using decreaseTextSize_large[of a1] a1 by auto
    with a1 1 show ?thesis by (intro exI[of _ a1] exI[of _ a2]) (cases "state a", simp)
  next
    case 2
    obtain a1 where a1: "increaseTextSize sf a = Returns a1"
      "state a1 = (state a)\<lparr>textSize := JStr ''xl''\<rparr>"
      using increaseTextSize_large[OF 2] by blast
    obtain a2 where "decreaseTextSize sf a1 = Returns a2"
      "state a2 = (state a1)\<lparr>textSize := JStr ''large''\<rparr>"
      using decreaseTextSize_xl[of a1] a1 by auto
    with a1 2 show ?thesis by (intro exI[of _ a1] exI[of _ a2]) (cases "state a", simp)
  qed
next
  assume "textSize (state a) = JStr ''xl''"
  then show "\<exists>a1. increaseTextSize sf a = Returns a1 \<and> state a1 = state a
             \<and> body_classes a1 = body_classes a"
    by (rule increaseTextSize_xl)
next
  assume "textSize (state a) = JStr ''normal''"
  then show "\<exists>a1. decreaseTextSize sf a = Returns a1 \<and> state a1 = state a
             \<and> body_classes a1 = body_classes a"
    by (rule decreaseTextSize_normal)
next
  assume "textSize (state a) \<in> text_sizes"
  then consider "textSize (state a) = JStr ''normal''" | "textSize (state a) = JStr ''large''"
    | "textSize (state a) = JStr ''xl''"
    by (auto simp: text_sizes_def)
  then show "\<exists>a1. increaseTextSize sf a = Returns a1 \<and> textSize (state a1) \<in> text_sizes"
  proof cases
    case 1 then show ?thesis using increaseTextSize_normal[of a sf] by (auto simp: text_sizes_def)
  next
    case 2 then show ?thesis using increaseTextSize_large[of a sf] by (auto simp: text_sizes_def)
  next
    case 3 then show ?thesis using increaseTextSize_xl[of a sf] by (auto simp: text_sizes_def)
  qed
next
  assume "textSize (state a) \<in> text_sizes"
  then consider "textSize (state a) = JStr ''normal''" | "textSize (state a) = JStr ''large''"
    | "textSize (state a) = JStr ''xl''"
    by (auto simp: text_sizes_def)
  then show "\<exists>a1. decreaseTextSize sf a = Returns a1 \<and> textSize (state a1) \<in> text_sizes"
  proof cases
    case 1 then show ?thesis using decreaseTextSize_normal[of a sf] by (auto simp: text_sizes_def)
  next
    case 2 then show ?thesis using decreaseTextSize_large[of a sf] by (auto simp: text_sizes_def)
  next
    case 3 then show ?thesis using decreaseTextSize_xl[of a sf] by (auto simp: text_sizes_def)
  qed
qed

text \<open>
  Claim C4, as amended. With a text size among \<open>normal\<close>, \<open>large\<close>, \<open>xl\<close> and a
  boolean \<open>highContrast\<close>, on a storage that is neither denied nor full and with a
  \<open>JSON\<close> that reads back the object it wrote, \<open>savePreferences\<close> puts the text of the
  two preferences under the key \<open>accessibility_preferences\<close>, and \<open>loadPreferences\<close>, on
  the same application object or on any other over a readable storage that holds this
  text under this key, ends with that \<open>highContrast\<close> and that \<open>textSize\<close>.
\<close>

theorem preferences_roundtrip:
  assumes "highContrast (state a) = JBool hc" and "textSize (state a) = ts"
    and "ts \<in> text_sizes"
    and "\<not> denied (storage a)" and "\<not> full (storage a)"
    and "json_roundtrip stringify parse (JObj [(''highContrast'', JBool hc), (''textSize'', ts)])"
  shows "\<exists>a1. savePreferences stringify a = Returns a1
           \<and> \<not> denied (storage a1)
           \<and> items (storage a1) ''accessibility_preferences''
               = Some (stringify (JObj [(''highContrast'', JBool hc), (''textSize'', ts)]))
           \<and> (\<forall>b. \<not> denied (storage b)
                  \<and> items (storage b) ''accessibility_preferences''
                      = Some (stringify (JObj [(''highContrast'', JBool hc), (''textSize'', ts)]))
                \<longrightarrow> (\<exists>b1. loadPreferences parse b = Returns b1
                       \<and> highContrast (state b1) = JBool hc \<and> textSize (state b1) = ts))"
proof -
  let ?v = "JObj [(''highContrast'', JBool hc), (''textSize'', ts)]"
  let ?a1 = "a\<lparr>storage := (storage a)\<lparr>items := (items (storage a))(''accessibility_preferences'' \<mapsto>
             stringify ?v)\<rparr>\<rparr>"
  have save: "savePreferences stringify a = Returns ?a1"
    using assms by (simp add: savePreferences_eq)
  have kept: "\<not> denied (storage ?a1)"
    "items (storage ?a1) ''accessibility_preferences'' = Some (stringify ?v)"
    using assms(4) by simp_all
  have ts: "truthy ts" using assms(3) by (auto simp: text_sizes_def)
  have load: "\<exists>b1. loadPreferences parse b = Returns b1
                 \<and> highContrast (state b1) = JBool hc \<and> textSize (state b1) = ts"
    if "\<not> denied (storage b)"
      and "items (storage b) ''accessibility_preferences'' = Some (stringify ?v)" for b :: app
  proof -
    have g: "getItem (storage b) ''accessibility_preferences'' = Val (Some (stringify ?v))"
      using that by (simp add: getItem_def)
    have p: "JSON_parse parse (stringify ?v) = Val ?v" and ne: "stringify ?v \<noteq> []"
      using assms(6) by (simp_all add: json_roundtrip_def JSON_parse_def)
    show ?thesis
      unfolding loadPreferences_def g eval_then.simps option.case
      using ne p ts
      by (cases hc; cases "user_preferences_data b"; cases "parse (the (user_preferences_data b))")
         (simp_all add: js_or_def Let_def JSON_parse_def)
  qed
  show ?thesis using save kept load by blast
qed

subsection \<open>The filter object\<close>

lemma saveFilters_eq:
  "saveFilters sf p = Returns
     (if denied (storage p) then
        p\<lparr>console := console p @ [ConsoleWarn ''Could not save filters to localStorage:'' SecurityError]\<rparr>
      else if full (storage p) then
        p\<lparr>console := console p @ [ConsoleWarn ''Could not save filters to localStorage:'' QuotaExceededError]\<rparr>
      else p\<lparr>storage := (storage p)\<lparr>items := (items (storage p))(storageKey \<mapsto> sf (filters p))\<rparr>\<rparr>)"
  by (simp add: saveFilters_def setItem_def)

lemma res_all_to_text_strings:
  "list_all is_string xs \<Longrightarrow> \<exists>ts. res_all (map to_text xs) = Val ts"
proof (induction xs)
  case Nil
  then show ?case by simp
next
  case (Cons x xs)
  then obtain s where "x = JStr s" by (cases x) auto
  with Cons show ?case by auto
qed

lemma filter_params_well_shaped:
  assumes "well_shaped f"
  shows "\<exists>ps. filter_params f = Val ps"
proof -
  from assms obtain ps where f: "f = JObj ps" by (cases f) auto
  from assms f have "is_string_array (prop_of ps ''locationTypes'')" by simp
  then obtain xs where lt: "prop_of ps ''locationTypes'' = JArr xs" "list_all is_string xs"
    by (cases "prop_of ps ''locationTypes''") auto
  from res_all_to_text_strings[OF lt(2)] obtain ts where "res_all (map to_text xs) = Val ts" ..
  then show ?thesis
    unfolding f filter_params_def get_prop_obj res_bind.simps lt(1) by simp
qed

lemma applyFilters_well_shaped:
  assumes "well_shaped (filters p)"
  shows "\<exists>p'. applyFilters q p = Returns p' \<and> filters p' = filters p \<and> storage p' = storage p
            \<and> console p' = (if map_attached p then console p else console p @
                [ConsoleErrorText ''Map instance not found or applyFilters method not available''])"
proof (cases "map_attached p")
  case False
  then show ?thesis by (simp add: applyFilters_def)
next
  case True
  from assms obtain ps where f: "filters p = JObj ps" by (cases "filters p") auto
  from filter_params_well_shaped[OF assms] obtain qs where "filter_params (JObj ps) = Val qs"
    using f by auto
  then show ?thesis
    using True f by (simp add: applyFilters_def map_applyFilters_def loadLocations_def Let_def)
qed

lemma map_fst_update_prop:
  "k \<in> fst ` set ps \<Longrightarrow> map fst (update_prop k v ps) = map fst ps"
  by (induction ps) force+

lemma prop_of_update_prop:
  "prop_of (update_prop k v ps) k' = (if k' = k then v else prop_of ps k')"
  by (induction ps) (auto simp: prop_of_def)

lemma well_shaped_keys:
  "well_shaped (JObj ps) \<Longrightarrow> k \<in> set (filter_names @ [''locationTypes'']) \<Longrightarrow> k \<in> fst ` set ps"
  by simp

lemma set_prop_boolean:
  assumes "well_shaped f" and "k \<in> set filter_names"
  shows "\<exists>f'. set_prop f k (JBool b) = Val f' \<and> well_shaped f'"
proof -
  from assms(1) obtain ps where f: "f = JObj ps" by (cases f) auto
  have k: "k \<in> fst ` set ps" using well_shaped_keys assms f by auto
  have ne: "k \<noteq> ''__proto__''" "k \<noteq> ''locationTypes''"
    using assms(2) by (auto simp: filter_names_def)
  have "well_shaped (JObj (update_prop k (JBool b) ps))"
    using assms(1) ne unfolding f well_shaped.simps map_fst_update_prop[OF k] prop_of_update_prop
    by (auto simp: list_all_iff)
  then show ?thesis using ne f by simp
qed

lemma set_prop_locationTypes:
  assumes "well_shaped f" and "is_string_array v"
  shows "\<exists>f'. set_prop f ''locationTypes'' v = Val f' \<and> well_shaped f'"
proof -
  from assms(1) obtain ps where f: "f = JObj ps" by (cases f) auto
  have k: "''locationTypes'' \<in> fst ` set ps" using well_shaped_keys assms f by auto
  have "well_shaped (JObj (update_prop ''locationTypes'' v ps))"
    using assms unfolding f well_shaped.simps map_fst_update_prop[OF k] prop_of_update_prop
    by (auto simp: list_all_iff filter_names_def)
  then show ?thesis using f by simp
qed

lemma saveFilters_invariant:
  assumes "filter_invariant parse p" and "json_keeps_shape sf parse"
  shows "\<exists>p'. saveFilters sf p = Returns p' \<and> filter_invariant parse p' \<and> filters p' = filters p"
  using assms
  by (auto simp: saveFilters_eq filter_invariant_def stored_well_shaped_def json_keeps_shape_def
           split: option.splits)

lemma apply_save_invariant:
  assumes "filter_invariant parse p" and "json_keeps_shape sf parse"
  shows "\<exists>p'. and_then (applyFilters q p) (saveFilters sf) = Returns p'
            \<and> filter_invariant parse p' \<and> filters p' = filters p"
proof -
  from assms(1) have ws: "well_shaped (filters p)" by (simp add: filter_invariant_def)
  from applyFilters_well_shaped[OF ws, of q] obtain p1 where
    p1: "applyFilters q p = Returns p1" "filters p1 = filters p" "storage p1 = storage p"
    by blast
  then have "filter_invariant parse p1" using assms(1) by (simp add: filter_invariant_def)
  from saveFilters_invariant[OF this assms(2)] p1 show ?thesis by auto
qed

lemma loadSavedFilters_invariant:
  assumes "filter_invariant parse p"
  shows "\<exists>p'. loadSavedFilters parse p = Returns p' \<and> filter_invariant parse p'"
  using assms
  by (auto simp: loadSavedFilters_def getItem_def JSON_parse_def filter_invariant_def
        stored_well_shaped_def split: option.splits)

lemma resetFilters_invariant:
  assumes "filter_invariant parse p" and "json_keeps_shape sf parse"
  shows "\<exists>p'. resetFilters sf q p = Returns p' \<and> filter_invariant parse p'
           \<and> filters p' = default_filters"
proof -
  have "well_shaped default_filters"
    by (simp add: default_filters_def filter_names_def prop_of_def)
  then have "filter_invariant parse (p\<lparr>filters := default_filters\<rparr>)"
    using assms(1) by (simp add: filter_invariant_def)
  from apply_save_invariant[OF this assms(2), of q] obtain p2 where
    "and_then (applyFilters q (p\<lparr>filters := default_filters\<rparr>)) (saveFilters sf) = Returns p2"
    "filter_invariant parse p2" "filters p2 = default_filters" by auto
  then show ?thesis
    unfolding resetFilters_def
    by (cases "applyFilters q (p\<lparr>filters := default_filters\<rparr>)")
       (auto simp: filter_invariant_def)
qed

lemma announce_after:
  assumes "\<exists>p'. r = Returns p' \<and> filter_invariant parse p' \<and> filters p' = f"
  shows "\<exists>p'. and_then r (\<lambda>p2. Returns (p2\<lparr>filter_status := s p2\<rparr>)) = Returns p'
            \<and> filter_invariant parse p' \<and> filters p' = f"
  using assms by (auto simp: filter_invariant_def)

lemma toggleFilterButton_invariant:
  assumes "filter_invariant parse p" and "json_keeps_shape sf parse"
    and "expected_op (ToggleFilterButton b)"
  shows "\<exists>p'. toggleFilterButton sf q b p = Returns p' \<and> filter_invariant parse p'"
proof -
  from assms(3) obtain k where k: "data_filter b = Some k" "k \<in> set filter_names"
    by (auto split: option.splits)
  from assms(1) have ws: "well_shaped (filters p)" by (simp add: filter_invariant_def)
  from set_prop_boolean[OF ws k(2), of "\<not> active b"] obtain f where
    f: "set_prop (filters p) k (JBool (\<not> active b)) = Val f" "well_shaped f" by blast
  have "filter_invariant parse (p\<lparr>filters := f\<rparr>)"
    using assms(1) f(2) by (simp add: filter_invariant_def)
  from apply_save_invariant[OF this assms(2), of q] obtain p2 where
    p2: "and_then (applyFilters q (p\<lparr>filters := f\<rparr>)) (saveFilters sf) = Returns p2"
    "filter_invariant parse p2" by auto
  obtain n where n: "filterNames k = Val n"
    using k(2) by (auto simp: filterNames_def filter_names_def)
  show ?thesis
    unfolding toggleFilterButton_def Let_def k(1) property_key_def option.case f(1) eval_then.simps
    using p2 n
    by (cases "applyFilters q (p\<lparr>filters := f\<rparr>)")
       (auto simp: announceFilterChange_def property_key_def filter_invariant_def)
qed

lemma list_all_is_string_filter:
  "list_all is_string xs \<Longrightarrow> list_all is_string (filter P xs)"
  by (induction xs) auto

lemma toggleTypeFilter_invariant:
  assumes "filter_invariant parse p" and "json_keeps_shape sf parse"
    and "expected_op (ToggleTypeFilter c)"
  shows "\<exists>p'. toggleTypeFilter sf q c p = Returns p' \<and> filter_invariant parse p'"
proof -
  from assms(3) obtain t where t: "data_type c = Some t" by auto
  from assms(1) have ws: "well_shaped (filters p)" by (simp add: filter_invariant_def)
  then obtain ps where ps: "filters p = JObj ps" by (cases "filters p") auto
  from ws ps have "is_string_array (prop_of ps ''locationTypes'')" by simp
  then obtain xs where xs: "prop_of ps ''locationTypes'' = JArr xs" "list_all is_string xs"
    by (cases "prop_of ps ''locationTypes''") auto
  have gp: "get_prop (filters p) ''locationTypes'' = Val (JArr xs)"
    unfolding ps get_prop_obj xs(1) ..
  let ?first = "eval_then (get_prop (filters p) ''locationTypes'') p (\<lambda>lt.
              if checked c then
                eval_then (js_includes lt (JStr t)) p (\<lambda>included.
                  if included then Returns p
                  else
                    eval_then (js_push lt (JStr t)) p (\<lambda>lt'.
                    eval_then (set_prop (filters p) ''locationTypes'' lt') p (\<lambda>f.
                    Returns (p\<lparr>filters := f\<rparr>))))
              else
                eval_then (js_filter_out lt (JStr t)) p (\<lambda>lt'.
                eval_then (set_prop (filters p) ''locationTypes'' lt') p (\<lambda>f.
                Returns (p\<lparr>filters := f\<rparr>))))"
  have push: "\<exists>f. set_prop (filters p) ''locationTypes'' (JArr (xs @ [JStr t])) = Val f
                \<and> well_shaped f"
    using set_prop_locationTypes[OF ws, of "JArr (xs @ [JStr t])"] xs(2) by simp
  have filt: "\<exists>f. set_prop (filters p) ''locationTypes'' (JArr (filter (\<lambda>x. x \<noteq> JStr t) xs)) = Val f
                \<and> well_shaped f"
    using set_prop_locationTypes[OF ws, of "JArr (filter (\<lambda>x. x \<noteq> JStr t) xs)"]
      list_all_is_string_filter[OF xs(2)] by simp
  have first: "\<exists>p1. ?first = Returns p1 \<and> filter_invariant parse p1"
  proof (cases "checked c")
    case True
    show ?thesis
    proof (cases "JStr t \<in> set xs")
      case True
      with \<open>checked c\<close> assms(1) show ?thesis by (simp add: gp)
    next
      case False
      from push obtain f where "set_prop (filters p) ''locationTypes'' (JArr (xs @ [JStr t])) = Val f"
        "well_shaped f" by blast
      with False \<open>checked c\<close> assms(1) show ?thesis
        by (simp add: gp filter_invariant_def)
    qed
  next
    case False
    from filt obtain f where
      "set_prop (filters p) ''locationTypes'' (JArr (filter (\<lambda>x. x \<noteq> JStr t) xs)) = Val f"
      "well_shaped f" by blast
    with False assms(1) show ?thesis
      by (simp add: gp filter_invariant_def)
  qed
  then obtain p1 where p1: "?first = Returns p1" "filter_invariant parse p1" by blast
  from apply_save_invariant[OF p1(2) assms(2), of q] obtain p3 where
    p3: "and_then (applyFilters q p1) (saveFilters sf) = Returns p3" "filter_invariant parse p3"
    by auto
  show ?thesis
    unfolding toggleTypeFilter_def Let_def t option.case p1(1) and_then.simps
    using p3
    by (cases "applyFilters q p1")
       (auto simp: announceTypeFilterChange_def filter_invariant_def)
qed

lemma set_filter_if_invariant:
  assumes "filter_invariant parse p" and "truthy prefs" and "name \<in> set filter_names"
  shows "\<exists>p'. set_filter_if prefs need name p = Returns p' \<and> filter_invariant parse p'"
proof -
  from assms(2) obtain v where v: "get_prop prefs need = Val v" by (cases prefs) auto
  from assms(1) have ws: "well_shaped (filters p)" by (simp add: filter_invariant_def)
  from set_prop_boolean[OF ws assms(3), of True] obtain f where
    "set_prop (filters p) name (JBool True) = Val f" "well_shaped f" by blast
  then show ?thesis
    using assms(1) v by (simp add: set_filter_if_def filter_invariant_def)
qed

lemma mark_buttons_well_shaped:
  "well_shaped (filters p) \<Longrightarrow> mark_buttons bs p = Returns p"
proof (induction bs)
  case Nil
  then show ?case by simp
next
  case (Cons b bs)
  from Cons.prems obtain ps where "filters p = JObj ps" by (cases "filters p") auto
  with Cons show ?case by simp
qed

lemma setFromUserPreferences_invariant:
  assumes "filter_invariant parse p" and "json_keeps_shape sf parse"
  shows "\<exists>p'. setFromUserPreferences sf q bs prefs p = Returns p' \<and> filter_invariant parse p'"
proof (cases "truthy prefs")
  case False
  then show ?thesis using assms(1) by (simp add: setFromUserPreferences_def)
next
  case True
  from set_filter_if_invariant[OF assms(1) True, of "''wheelchair''" "''needs_wheelchair''"]
  obtain p1 where p1: "set_filter_if prefs ''needs_wheelchair'' ''wheelchair'' p = Returns p1"
    "filter_invariant parse p1" by (auto simp: filter_names_def)
  from set_filter_if_invariant[OF p1(2) True, of "''visual''" "''needs_visual_assistance''"]
  obtain p2 where p2: "set_filter_if prefs ''needs_visual_assistance'' ''visual'' p1 = Returns p2"
    "filter_invariant parse p2" by (auto simp: filter_names_def)
  from set_filter_if_invariant[OF p2(2) True, of "''hearing''" "''needs_hearing_assistance''"]
  obtain p3 where p3: "set_filter_if prefs ''needs_hearing_assistance'' ''hearing'' p2 = Returns p3"
    "filter_invariant parse p3" by (auto simp: filter_names_def)
  from set_filter_if_invariant[OF p3(2) True, of "''cognitive''" "''needs_cognitive_assistance''"]
  obtain p4 where p4: "set_filter_if prefs ''needs_cognitive_assistance'' ''cognitive'' p3 = Returns p4"
    "filter_invariant parse p4" by (auto simp: filter_names_def)
  from apply_save_invariant[OF p4(2) assms(2), of q] obtain p6 where
    p6: "and_then (applyFilters q p4) (saveFilters sf) = Returns p6" "filter_invariant parse p6"
    by auto
  from p4(2) have "mark_buttons bs p4 = Returns p4"
    by (simp add: mark_buttons_well_shaped filter_invariant_def)
  then show ?thesis
    unfolding setFromUserPreferences_def using True p1 p2 p3 p4 p6
    by (cases "applyFilters q p4") auto
qed

lemma filter_step_invariant:
  assumes "filter_invariant parse p" and "json_keeps_shape sf parse" and "expected_op x"
  shows "\<exists>p'. filter_step sf parse q bs x p = Returns p' \<and> filter_invariant parse p'"
proof (cases x)
  case LoadSavedFilters
  then show ?thesis using loadSavedFilters_invariant[OF assms(1)] by simp
next
  case (ToggleFilterButton b)
  then show ?thesis using toggleFilterButton_invariant[OF assms(1,2)] assms(3) by simp
next
  case (ToggleTypeFilter c)
  then show ?thesis using toggleTypeFilter_invariant[OF assms(1,2)] assms(3) by simp
next
  case ResetFilters
  then show ?thesis using resetFilters_invariant[OF assms(1,2)] by auto
next
  case (SetFromUserPreferences prefs)
  then show ?thesis using setFromUserPreferences_invariant[OF assms(1,2)] by simp
qed

lemma filter_run_invariant:
  assumes "json_keeps_shape sf parse"
  shows "filter_invariant parse p \<Longrightarrow> \<forall>x \<in> set xs. expected_op x \<Longrightarrow>
         \<exists>p'. filter_run sf parse q bs xs p = Returns p' \<and> filter_invariant parse p'"
proof (induction xs arbitrary: p)
  case Nil
  then show ?case by simp
next
  case (Cons x xs)
  from filter_step_invariant[OF Cons.prems(1) assms, of x q bs] Cons.prems(2)
  obtain p1 where p1: "filter_step sf parse q bs x p = Returns p1" "filter_invariant parse p1"
    by auto
  from Cons.IH[OF p1(2)] Cons.prems(2) p1(1) show ?case by simp
qed

subsection \<open>The shape of the filter object is kept\<close>

lemma stringify_sample_cases:
  "stringify_sample v = [] \<or> v = JObj [(''highContrast'', JBool True), (''textSize'', JStr ''large'')]
   \<or> v = JObj [(''highContrast'', JBool True), (''textSize'', JStr ''xl'')]
   \<or> v = JObj [(''wheelchair'', JBool True), (''visual'', JBool False),
                        (''hearing'', JBool False), (''cognitive'', JBool False),
                        (''locationTypes'', JArr [])]
   \<or> v = filters_sample"
  unfolding stringify_sample_def filters_sample_def by presburger

lemma parse_stringify_filters_sample:
  "stringify_sample filters_sample \<noteq> []"
  "parse_sample (stringify_sample filters_sample) = Some filters_sample"
  by (simp_all add: stringify_sample_def parse_sample_def filters_sample_def)

lemma parse_stringify_wheelchair_only:
  "parse_sample (stringify_sample (JObj [(''wheelchair'', JBool True), (''visual'', JBool False),
                        (''hearing'', JBool False), (''cognitive'', JBool False),
                        (''locationTypes'', JArr [])]))
   = Some (JObj [(''wheelchair'', JBool True), (''visual'', JBool False),
                        (''hearing'', JBool False), (''cognitive'', JBool False),
                        (''locationTypes'', JArr [])])"
  by (simp add: stringify_sample_def parse_sample_def)

lemma parse_sample_empty: "parse_sample [] = None"
  by (simp add: parse_sample_def)

lemma json_keeps_shape_sample: "json_keeps_shape stringify_sample parse_sample"
  unfolding json_keeps_shape_def
proof (intro allI impI)
  fix v assume ws: "well_shaped v"
  have n1: "\<not> well_shaped (JObj [(''highContrast'', JBool True), (''textSize'', JStr ''large'')])"
    by (simp add: filter_names_def prop_of_def)
  have n2: "\<not> well_shaped (JObj [(''highContrast'', JBool True), (''textSize'', JStr ''xl'')])"
    by (simp add: filter_names_def prop_of_def)
  from stringify_sample_cases[of v] ws n1 n2
  consider "stringify_sample v = []"
    | "v = JObj [(''wheelchair'', JBool True), (''visual'', JBool False),
                        (''hearing'', JBool False), (''cognitive'', JBool False),
                        (''locationTypes'', JArr [])]"
    | "v = filters_sample" by blast
  then show "case parse_sample (stringify_sample v) of None \<Rightarrow> True | Some v' \<Rightarrow> well_shaped v'"
  proof cases
    case 1
    then show ?thesis by (simp add: parse_sample_empty)
  next
    case 2
    then show ?thesis using ws by (simp only: parse_stringify_wheelchair_only option.case)
  next
    case 3
    then show ?thesis using ws by (simp only: parse_stringify_filters_sample option.case)
  qed
qed

text \<open>
  Claim C7, as amended. Start from the constructor's filter object, on a page whose
  filter buttons carry one of the four filter names and whose type checkboxes carry a
  type, with a storage that holds under the filter key nothing, or a text that does not
  parse, or the text of a well-shaped filter object, and with a \<open>JSON\<close> that reads a
  well-shaped object back from the text it writes for one. Then every sequence of
  \<open>loadSavedFilters\<close>, \<open>toggleFilterButton\<close>, \<open>toggleTypeFilter\<close>, \<open>resetFilters\<close> and
  \<open>setFromUserPreferences\<close> returns, and the filter object still consists of exactly the
  four booleans and \<open>locationTypes\<close>, an array of strings.
\<close>

theorem filter_shape_preserved:
  assumes "filters p = default_filters"
    and "stored_well_shaped parse (storage p)"
    and "json_keeps_shape stringify parse"
    and "\<forall>x \<in> set ops. expected_op x"
  shows "\<exists>p'. filter_run stringify parse query buttons ops p = Returns p'
           \<and> well_shaped (filters p')"
proof -
  have "well_shaped default_filters"
    by (simp add: default_filters_def filter_names_def prop_of_def)
  then have "filter_invariant parse p"
    using assms(1,2) by (simp add: filter_invariant_def)
  from filter_run_invariant[OF assms(3) this assms(4)] show ?thesis
    by (auto simp: filter_invariant_def)
qed

theorem filter_shape_preserved_witness:
  "filters page_sample = default_filters
   \<and> stored_well_shaped parse_sample (storage page_sample)
   \<and> list_all expected_op ops_sample
   \<and> (\<exists>p'. filter_run stringify_sample parse_sample query_sample [wheelchair_button] ops_sample
            page_sample = Returns p'
          \<and> well_shaped (filters p'))"
proof -
  have h1: "filters page_sample = default_filters" by (simp add: page_sample_def)
  have h2: "stored_well_shaped parse_sample (storage page_sample)"
    by (simp add: page_sample_def stored_well_shaped_def)
  have h4: "\<forall>x \<in> set ops_sample. expected_op x"
    by (simp add: ops_sample_def wheelchair_button_def cafe_checkbox_def filter_names_def)
  then have h4': "list_all expected_op ops_sample" by (simp add: list_all_iff)
  from filter_shape_preserved[OF h1 h2 json_keeps_shape_sample h4, of query_sample
      "[wheelchair_button]"]
  show ?thesis using h1 h2 h4' by blast
qed

text \<open>
  The claim as stated, for every storage, fails: \<open>loadSavedFilters\<close> installs whatever
  value the stored text denotes. When the storage holds the text \<open>{}\<close> under the filter
  key, the filter object after \<open>loadSavedFilters\<close> has none of the five properties.
\<close>

theorem filter_shape_counterexample:
  "filters page_stale = default_filters
   \<and> filter_run stringify_sample parse_sample query_sample [wheelchair_button] [LoadSavedFilters]
       page_stale
       = Returns (page_stale\<lparr>filters := JObj []\<rparr>)
   \<and> \<not> well_shaped (filters (page_stale\<lparr>filters := JObj []\<rparr>))"
  by (simp add: page_stale_def page_sample_def loadSavedFilters_def getItem_def JSON_parse_def
      parse_sample_def filter_names_def)

text \<open>
  The two conditions on the page are needed as well: a button whose \<open>data-filter\<close> is
  not one of the four names adds a property, and a checkbox without \<open>data-type\<close> puts
  \<open>undefined\<close> into \<open>locationTypes\<close>.
\<close>

lemma not_well_shaped_extra_key:
  "\<not> well_shaped (JObj [(''wheelchair'', JBool False), (''visual'', JBool False),
           (''hearing'', JBool False), (''cognitive'', JBool False), (''locationTypes'', JArr []),
           (''foo'', JBool True)])"
proof
  let ?ps = "[(''wheelchair'', JBool False), (''visual'', JBool False),
           (''hearing'', JBool False), (''cognitive'', JBool False), (''locationTypes'', JArr []),
           (''foo'', JBool True)]"
  assume "well_shaped (JObj ?ps)"
  then have eq: "set (map fst ?ps) = set (filter_names @ [''locationTypes''])"
    by (simp only: well_shaped.simps)
  have "''foo'' \<in> set (map fst ?ps)" by simp
  then have "''foo'' \<in> set (filter_names @ [''locationTypes''])" unfolding eq .
  then show False by (simp add: filter_names_def)
qed

lemma toggle_unknown_button:
  "\<exists>p'. toggleFilterButton stringify_sample query_sample \<lparr>data_filter = Some ''foo'', active = False\<rparr>
           page_sample = Returns p'
     \<and> filters p' = JObj [(''wheelchair'', JBool False), (''visual'', JBool False),
           (''hearing'', JBool False), (''cognitive'', JBool False), (''locationTypes'', JArr []),
           (''foo'', JBool True)]
     \<and> \<not> well_shaped (filters p')"
proof -
  let ?f = "JObj [(''wheelchair'', JBool False), (''visual'', JBool False),
           (''hearing'', JBool False), (''cognitive'', JBool False), (''locationTypes'', JArr []),
           (''foo'', JBool True)]"
  have sp: "set_prop (filters page_sample) ''foo'' (JBool True) = Val ?f"
    by (simp add: page_sample_def default_filters_def)
  have "\<exists>ps. filter_params ?f = Val ps"
    by (simp add: filter_params_def)
  then obtain ps where ps: "filter_params ?f = Val ps" ..
  have "\<exists>p1. applyFilters query_sample (page_sample\<lparr>filters := ?f\<rparr>) = Returns p1
             \<and> filters p1 = ?f"
    using ps by (simp add: applyFilters_def map_applyFilters_def loadLocations_def page_sample_def Let_def)
  then obtain p1 where p1: "applyFilters query_sample (page_sample\<lparr>filters := ?f\<rparr>) = Returns p1"
    "filters p1 = ?f" by blast
  have fn: "filterNames ''foo'' = Val ''undefined''"
    by (simp add: filterNames_def inherited_keys_def)
  have "\<exists>p'. toggleFilterButton stringify_sample query_sample
           \<lparr>data_filter = Some ''foo'', active = False\<rparr> page_sample = Returns p' \<and> filters p' = ?f"
    unfolding toggleFilterButton_def Let_def
    using sp p1 fn
    by (simp add: property_key_def saveFilters_eq announceFilterChange_def)
  then obtain p' where p': "toggleFilterButton stringify_sample query_sample
           \<lparr>data_filter = Some ''foo'', active = False\<rparr> page_sample = Returns p'" "filters p' = ?f"
    by blast
  from not_well_shaped_extra_key have "\<not> well_shaped (filters p')" unfolding p'(2) .
  with p' show ?thesis by blast
qed

lemma not_well_shaped_undefined_type:
  "\<not> well_shaped (JObj [(''wheelchair'', JBool False), (''visual'', JBool False),
           (''hearing'', JBool False), (''cognitive'', JBool False),
           (''locationTypes'', JArr [JUndefined])])"
  by (simp add: prop_of_def)

lemma toggle_untyped_checkbox:
  "\<exists>p'. toggleTypeFilter stringify_sample query_sample \<lparr>data_type = None, checked = True\<rparr>
           page_sample = Returns p'
     \<and> filters p' = JObj [(''wheelchair'', JBool False), (''visual'', JBool False),
           (''hearing'', JBool False), (''cognitive'', JBool False),
           (''locationTypes'', JArr [JUndefined])]
     \<and> \<not> well_shaped (filters p')"
proof -
  let ?f = "JObj [(''wheelchair'', JBool False), (''visual'', JBool False),
           (''hearing'', JBool False), (''cognitive'', JBool False),
           (''locationTypes'', JArr [JUndefined])]"
  have gp: "get_prop (filters page_sample) ''locationTypes'' = Val (JArr [])"
    by (simp add: page_sample_def default_filters_def)
  have sp: "set_prop (filters page_sample) ''locationTypes'' (JArr [JUndefined]) = Val ?f"
    by (simp add: page_sample_def default_filters_def)
  have "\<exists>ps. filter_params ?f = Val ps"
    by (simp add: filter_params_def)
  then obtain ps where ps: "filter_params ?f = Val ps" ..
  have "\<exists>p1. applyFilters query_sample (page_sample\<lparr>filters := ?f\<rparr>) = Returns p1
             \<and> filters p1 = ?f"
    using ps by (simp add: applyFilters_def map_applyFilters_def loadLocations_def page_sample_def Let_def)
  then obtain p1 where p1: "applyFilters query_sample (page_sample\<lparr>filters := ?f\<rparr>) = Returns p1"
    "filters p1 = ?f" by blast
  have "\<exists>p'. toggleTypeFilter stringify_sample query_sample \<lparr>data_type = None, checked = True\<rparr>
           page_sample = Returns p' \<and> filters p' = ?f"
    unfolding toggleTypeFilter_def Let_def
    using gp sp p1
    by (simp add: saveFilters_eq announceTypeFilterChange_def)
  then obtain p' where p': "toggleTypeFilter stringify_sample query_sample
           \<lparr>data_type = None, checked = True\<rparr> page_sample = Returns p'" "filters p' = ?f"
    by blast
  from not_well_shaped_undefined_type have "\<not> well_shaped (filters p')" unfolding p'(2) .
  with p' show ?thesis by blast
qed

subsection \<open>Active filters\<close>

lemma well_shaped_default: "well_shaped default_filters"
  by (simp add: default_filters_def filter_names_def prop_of_def)

lemma hasActiveFilters_default: "hasActiveFilters default_filters = Val (JBool False)"
  by (simp add: hasActiveFilters_def default_filters_def js_or_def prop_of_def num_gt_def)

lemma resetFilters_returns:
  "\<exists>p'. resetFilters sf q p = Returns p' \<and> filters p' = default_filters"
proof -
  let ?p = "p\<lparr>filters := default_filters\<rparr>"
  have "well_shaped (filters ?p)" by (simp add: well_shaped_default)
  from applyFilters_well_shaped[OF this, of q] obtain p1 where
    "applyFilters q ?p = Returns p1" "filters p1 = default_filters" by auto
  then show ?thesis by (simp add: resetFilters_def saveFilters_eq)
qed

lemma hasActiveFilters_well_shaped:
  assumes "well_shaped (JObj ps)"
  shows "hasActiveFilters (JObj ps) =
     Val (JBool (prop_of ps ''wheelchair'' = JBool True \<or> prop_of ps ''visual'' = JBool True
          \<or> prop_of ps ''hearing'' = JBool True \<or> prop_of ps ''cognitive'' = JBool True
          \<or> prop_of ps ''locationTypes'' \<noteq> JArr []))"
proof -
  from assms obtain w v h c where
    b: "prop_of ps ''wheelchair'' = JBool w" "prop_of ps ''visual'' = JBool v"
       "prop_of ps ''hearing'' = JBool h" "prop_of ps ''cognitive'' = JBool c"
    by (auto simp: filter_names_def elim!: is_boolean.elims)
  from assms obtain xs where xs: "prop_of ps ''locationTypes'' = JArr xs"
    by (auto elim!: is_string_array.elims)
  show ?thesis
    unfolding hasActiveFilters_def get_prop_obj b xs
    by (cases xs) (simp_all add: js_or_def num_gt_def)
qed

text \<open>
  Claim C10. \<open>resetFilters\<close> returns, and after it \<open>hasActiveFilters\<close> returns false.
  On every well-shaped filter object \<open>hasActiveFilters\<close> returns a boolean, which is
  true exactly when one of the four accessibility booleans is true or \<open>locationTypes\<close>
  is not empty.
\<close>

theorem hasActiveFilters_meaning:
  "(\<exists>p'. resetFilters stringify query p = Returns p'
          \<and> hasActiveFilters (filters p') = Val (JBool False))
   \<and> (well_shaped (JObj ps) \<longrightarrow>
        (\<exists>b. hasActiveFilters (JObj ps) = Val (JBool b)
           \<and> (b \<longleftrightarrow> prop_of ps ''wheelchair'' = JBool True \<or> prop_of ps ''visual'' = JBool True
                  \<or> prop_of ps ''hearing'' = JBool True \<or> prop_of ps ''cognitive'' = JBool True
                  \<or> (\<exists>t ts. prop_of ps ''locationTypes'' = JArr (t # ts)))))"
proof (intro conjI impI)
  from resetFilters_returns[of stringify query p] obtain p' where
    "resetFilters stringify query p = Returns p'" "filters p' = default_filters" by blast
  then show "\<exists>p'. resetFilters stringify query p = Returns p'
          \<and> hasActiveFilters (filters p') = Val (JBool False)"
    by (simp add: hasActiveFilters_default)
next
  assume ws: "well_shaped (JObj ps)"
  then obtain xs where xs: "prop_of ps ''locationTypes'' = JArr xs"
    by (auto elim!: is_string_array.elims)
  have "(prop_of ps ''locationTypes'' \<noteq> JArr []) = (\<exists>t ts. prop_of ps ''locationTypes'' = JArr (t # ts))"
    unfolding xs by (cases xs) simp_all
  then show "\<exists>b. hasActiveFilters (JObj ps) = Val (JBool b)
           \<and> (b \<longleftrightarrow> prop_of ps ''wheelchair'' = JBool True \<or> prop_of ps ''visual'' = JBool True
                  \<or> prop_of ps ''hearing'' = JBool True \<or> prop_of ps ''cognitive'' = JBool True
                  \<or> (\<exists>t ts. prop_of ps ''locationTypes'' = JArr (t # ts)))"
    unfolding hasActiveFilters_well_shaped[OF ws] by simp
qed

theorem hasActiveFilters_meaning_witness:
  "well_shaped filters_sample
   \<and> hasActiveFilters filters_sample = Val (JBool True)
   \<and> (\<exists>p'. resetFilters stringify_sample query_sample page_sample = Returns p'
          \<and> hasActiveFilters (filters p') = Val (JBool False))"
proof -
  let ?ps = "[(''wheelchair'', JBool True), (''visual'', JBool False), (''hearing'', JBool False),
        (''cognitive'', JBool False), (''locationTypes'', JArr [JStr ''cafe''])]"
  have ws: "well_shaped (JObj ?ps)"
    by (simp add: filter_names_def prop_of_def)
  note m = hasActiveFilters_meaning[of stringify_sample query_sample page_sample ?ps]
  from m have r: "\<exists>p'. resetFilters stringify_sample query_sample page_sample = Returns p'
          \<and> hasActiveFilters (filters p') = Val (JBool False)"
    by (rule conjunct1)
  from m ws obtain b where b: "hasActiveFilters (JObj ?ps) = Val (JBool b)"
    "b \<longleftrightarrow> prop_of ?ps ''wheelchair'' = JBool True \<or> prop_of ?ps ''visual'' = JBool True
         \<or> prop_of ?ps ''hearing'' = JBool True \<or> prop_of ?ps ''cognitive'' = JBool True
         \<or> (\<exists>t ts. prop_of ?ps ''locationTypes'' = JArr (t # ts))"
    by blast
  have "prop_of ?ps ''wheelchair'' = JBool True" by (simp add: prop_of_def)
  with b(2) have "b" by blast
  with b(1) have a: "hasActiveFilters filters_sample = Val (JBool True)"
    by (simp only: filters_sample_def)
  from ws have "well_shaped filters_sample" by (simp only: filters_sample_def)
  with a r show ?thesis by blast
qed

subsection \<open>Saving and loading the filters\<close>

text \<open>
  Claim C3, as amended. For every filter state of four booleans and a list of
  strings, on a storage that is neither denied nor full and with a \<open>JSON\<close> that reads
  back the object it wrote, \<open>saveFilters\<close> puts the text of the filter object under the
  key \<open>accessibility_filters\<close>, and \<open>loadSavedFilters\<close> on a fresh instance (and on any
  other) over a readable storage that holds this text under this key gives the
  instance exactly the saved filter object.
\<close>

theorem filters_roundtrip:
  assumes "well_shaped (filters p)"
    and "\<not> denied (storage p)" and "\<not> full (storage p)"
    and "json_roundtrip stringify parse (filters p)"
  shows "\<exists>p1. saveFilters stringify p = Returns p1
           \<and> \<not> denied (storage p1)
           \<and> items (storage p1) ''accessibility_filters'' = Some (stringify (filters p))
           \<and> (\<forall>n. \<not> denied (storage n)
                  \<and> items (storage n) ''accessibility_filters'' = Some (stringify (filters p))
                \<longrightarrow> (\<exists>n1. loadSavedFilters parse n = Returns n1 \<and> filters n1 = filters p))"
  using assms
  by (auto simp: saveFilters_eq loadSavedFilters_def getItem_def JSON_parse_def json_roundtrip_def
        storageKey_def)

theorem filters_roundtrip_witness:
  "well_shaped (filters page_filtered)
   \<and> \<not> denied (storage page_filtered) \<and> \<not> full (storage page_filtered)
   \<and> json_roundtrip stringify_sample parse_sample (filters page_filtered)
   \<and> filters page_sample = default_filters
   \<and> (\<exists>p1. saveFilters stringify_sample page_filtered = Returns p1
        \<and> items (storage p1) ''accessibility_filters'' = Some (stringify_sample filters_sample)
        \<and> (\<exists>n1. loadSavedFilters parse_sample (page_sample\<lparr>storage := storage p1\<rparr>) = Returns n1
               \<and> filters n1 = filters_sample))"
proof -
  have f: "filters page_filtered = filters_sample" by (simp add: page_filtered_def)
  have d: "filters page_sample = default_filters" by (simp add: page_sample_def)
  have h1: "well_shaped (filters page_filtered)"
    unfolding f by (simp add: filters_sample_def filter_names_def prop_of_def)
  have h2: "\<not> denied (storage page_filtered)" and h3: "\<not> full (storage page_filtered)"
    by (simp_all add: page_filtered_def page_sample_def)
  have h4: "json_roundtrip stringify_sample parse_sample (filters page_filtered)"
    unfolding f json_roundtrip_def using parse_stringify_filters_sample by blast
  from filters_roundtrip[OF h1 h2 h3 h4] obtain p1 where
    p1: "saveFilters stringify_sample page_filtered = Returns p1"
    "\<not> denied (storage p1)"
    "items (storage p1) ''accessibility_filters'' = Some (stringify_sample (filters page_filtered))"
    "\<forall>n. \<not> denied (storage n)
          \<and> items (storage n) ''accessibility_filters'' = Some (stringify_sample (filters page_filtered))
       \<longrightarrow> (\<exists>n1. loadSavedFilters parse_sample n = Returns n1 \<and> filters n1 = filters page_filtered)"
    by blast
  have "storage (page_sample\<lparr>storage := storage p1\<rparr>) = storage p1" by simp
  with p1(2,3) have "\<not> denied (storage (page_sample\<lparr>storage := storage p1\<rparr>))
      \<and> items (storage (page_sample\<lparr>storage := storage p1\<rparr>)) ''accessibility_filters''
          = Some (stringify_sample (filters page_filtered))"
    by simp
  with p1(4) have "\<exists>n1. loadSavedFilters parse_sample (page_sample\<lparr>storage := storage p1\<rparr>) = Returns n1
       \<and> filters n1 = filters page_filtered" by blast
  with p1(1,3) h1 h2 h3 h4 d show ?thesis unfolding f by blast
qed

lemma saveFilters_full:
  "saveFilters stringify_sample page_full
     = Returns (warned ''Could not save filters to localStorage:'' QuotaExceededError page_full)"
  by (simp add: saveFilters_eq page_full_def warned_def)

lemma loadSavedFilters_nothing_stored:
  "loadSavedFilters parse_sample (page_sample\<lparr>storage := storage page_full\<rparr>)
     = Returns (page_sample\<lparr>storage := storage page_full\<rparr>)"
  by (simp add: loadSavedFilters_def getItem_def page_full_def)

text \<open>
  The claim as stated, for every storage, fails: on a full storage \<open>saveFilters\<close>
  catches the error of the write, nothing is stored, and a fresh instance over this
  storage keeps the constructor's filter object after \<open>loadSavedFilters\<close>.
\<close>

theorem filters_roundtrip_counterexample:
  "well_shaped (filters page_full)
   \<and> json_roundtrip stringify_sample parse_sample (filters page_full)
   \<and> saveFilters stringify_sample page_full
       = Returns (warned ''Could not save filters to localStorage:'' QuotaExceededError page_full)
   \<and> storage (warned ''Could not save filters to localStorage:'' QuotaExceededError page_full)
       = storage page_full
   \<and> filters (page_sample\<lparr>storage := storage page_full\<rparr>) = default_filters
   \<and> loadSavedFilters parse_sample (page_sample\<lparr>storage := storage page_full\<rparr>)
       = Returns (page_sample\<lparr>storage := storage page_full\<rparr>)
   \<and> filters (page_sample\<lparr>storage := storage page_full\<rparr>) \<noteq> filters page_full"
proof -
  have f: "filters page_full = filters_sample" by (simp add: page_full_def page_filtered_def)
  have d: "filters (page_sample\<lparr>storage := storage page_full\<rparr>) = default_filters"
    by (simp add: page_sample_def)
  have h1: "well_shaped (filters page_full)"
    unfolding f by (simp add: filters_sample_def filter_names_def prop_of_def)
  have h4: "json_roundtrip stringify_sample parse_sample (filters page_full)"
    unfolding f json_roundtrip_def using parse_stringify_filters_sample by blast
  have s: "storage (warned ''Could not save filters to localStorage:'' QuotaExceededError page_full)
       = storage page_full" by (simp add: warned_def)
  have ne: "filters (page_sample\<lparr>storage := storage page_full\<rparr>) \<noteq> filters page_full"
    unfolding d f by (simp add: default_filters_def filters_sample_def)
  from h1 h4 saveFilters_full s d loadSavedFilters_nothing_stored ne show ?thesis by blast
qed

subsection \<open>Evaluating the text size and the preferences\<close>

theorem text_size_steps_witness:
  "textSize (state (app_sized ''large'')) \<in> {JStr ''normal'', JStr ''large''}
   \<and> (\<exists>a1 a2. increaseTextSize stringify_sample (app_sized ''large'') = Returns a1
         \<and> decreaseTextSize stringify_sample a1 = Returns a2
         \<and> state a2 = state (app_sized ''large''))
   \<and> textSize (state (app_sized ''xl'')) = JStr ''xl''
   \<and> (\<exists>a1. increaseTextSize stringify_sample (app_sized ''xl'') = Returns a1
         \<and> state a1 = state (app_sized ''xl''))
   \<and> textSize (state (app_sized ''normal'')) = JStr ''normal''
   \<and> (\<exists>a1. decreaseTextSize stringify_sample (app_sized ''normal'') = Returns a1
         \<and> state a1 = state (app_sized ''normal''))
   \<and> textSize (state (app_sized ''large'')) \<in> text_sizes
   \<and> (\<exists>a1. increaseTextSize stringify_sample (app_sized ''large'') = Returns a1
         \<and> textSize (state a1) \<in> text_sizes)"
proof -
  have l: "textSize (state (app_sized ''large'')) = JStr ''large''"
    and x: "textSize (state (app_sized ''xl'')) = JStr ''xl''"
    and n: "textSize (state (app_sized ''normal'')) = JStr ''normal''"
    by (simp_all add: app_sized_def)
  have l1: "textSize (state (app_sized ''large'')) \<in> {JStr ''normal'', JStr ''large''}"
    and l2: "textSize (state (app_sized ''large'')) \<in> text_sizes"
    unfolding l text_sizes_def by simp_all
  note tl = text_size_steps[of "app_sized ''large''" stringify_sample]
  note tx = text_size_steps[of "app_sized ''xl''" stringify_sample]
  note tn = text_size_steps[of "app_sized ''normal''" stringify_sample]
  from tl l1 have c1: "\<exists>a1 a2. increaseTextSize stringify_sample (app_sized ''large'') = Returns a1
         \<and> decreaseTextSize stringify_sample a1 = Returns a2
         \<and> state a2 = state (app_sized ''large'')" by blast
  from tx x have c2: "\<exists>a1. increaseTextSize stringify_sample (app_sized ''xl'') = Returns a1
         \<and> state a1 = state (app_sized ''xl'')" by blast
  from tn n have c3: "\<exists>a1. decreaseTextSize stringify_sample (app_sized ''normal'') = Returns a1
         \<and> state a1 = state (app_sized ''normal'')" by blast
  from tl l2 have c4: "\<exists>a1. increaseTextSize stringify_sample (app_sized ''large'') = Returns a1
         \<and> textSize (state a1) \<in> text_sizes" by blast
  from l1 c1 x c2 n c3 l2 c4 show ?thesis by blast
qed


lemma parse_stringify_preferences_sample:
  "stringify_sample (JObj [(''highContrast'', JBool True), (''textSize'', JStr ''large'')]) \<noteq> []"
  "parse_sample (stringify_sample (JObj [(''highContrast'', JBool True), (''textSize'', JStr ''large'')]))
     = Some (JObj [(''highContrast'', JBool True), (''textSize'', JStr ''large'')])"
  by (simp_all add: stringify_sample_def parse_sample_def)

theorem preferences_roundtrip_witness:
  "highContrast (state app_sample) = JBool True \<and> textSize (state app_sample) = JStr ''large''
   \<and> JStr ''large'' \<in> text_sizes
   \<and> \<not> denied (storage app_sample) \<and> \<not> full (storage app_sample)
   \<and> json_roundtrip stringify_sample parse_sample
        (JObj [(''highContrast'', JBool True), (''textSize'', JStr ''large'')])
   \<and> (\<exists>a1. savePreferences stringify_sample app_sample = Returns a1
        \<and> items (storage a1) ''accessibility_preferences''
            = Some (stringify_sample (JObj [(''highContrast'', JBool True), (''textSize'', JStr ''large'')]))
        \<and> (\<exists>b1. loadPreferences parse_sample a1 = Returns b1
               \<and> highContrast (state b1) = JBool True \<and> textSize (state b1) = JStr ''large''))"
proof -
  have h1: "highContrast (state app_sample) = JBool True"
    and h2: "textSize (state app_sample) = JStr ''large''"
    and h4: "\<not> denied (storage app_sample)" and h5: "\<not> full (storage app_sample)"
    by (simp_all add: app_sample_def)
  have h3: "JStr ''large'' \<in> text_sizes" by (simp add: text_sizes_def)
  have h6: "json_roundtrip stringify_sample parse_sample
        (JObj [(''highContrast'', JBool True), (''textSize'', JStr ''large'')])"
    unfolding json_roundtrip_def using parse_stringify_preferences_sample by blast
  from preferences_roundtrip[OF h1 h2 h3 h4 h5 h6] obtain a1 where
    a1: "savePreferences stringify_sample app_sample = Returns a1"
    "\<not> denied (storage a1)"
    "items (storage a1) ''accessibility_preferences''
       = Some (stringify_sample (JObj [(''highContrast'', JBool True), (''textSize'', JStr ''large'')]))"
    "\<forall>b. \<not> denied (storage b)
          \<and> items (storage b) ''accessibility_preferences''
              = Some (stringify_sample (JObj [(''highContrast'', JBool True), (''textSize'', JStr ''large'')]))
       \<longrightarrow> (\<exists>b1. loadPreferences parse_sample b = Returns b1
          \<and> highContrast (state b1) = JBool True \<and> textSize (state b1) = JStr ''large'')"
    by blast
  from a1(2,3,4) have "\<exists>b1. loadPreferences parse_sample a1 = Returns b1
          \<and> highContrast (state b1) = JBool True \<and> textSize (state b1) = JStr ''large''"
    by blast
  with a1(1,3) h1 h2 h3 h4 h5 h6 show ?thesis by blast
qed

lemma savePreferences_full:
  "savePreferences stringify_sample app_full
     = Returns (warned ''Could not save preferences to localStorage:'' QuotaExceededError app_full)"
  by (simp add: savePreferences_eq app_full_def warned_def)

lemma parse_sample_xl:
  \<open>parse_sample ''{"highContrast":true,"textSize":"xl"}''
     = Some (JObj [(''highContrast'', JBool True), (''textSize'', JStr ''xl'')])\<close>
  by (simp add: parse_sample_def)

lemma loadPreferences_stale:
  "loadPreferences parse_sample
       (warned ''Could not save preferences to localStorage:'' QuotaExceededError app_full)
     = Returns ((warned ''Could not save preferences to localStorage:'' QuotaExceededError app_full)
         \<lparr>state := \<lparr>highContrast = JBool True, textSize = JStr ''xl'', userPreferences = JNull\<rparr>\<rparr>)"
  by (simp add: loadPreferences_def warned_def app_full_def app_sample_def getItem_def
      JSON_parse_def parse_sample_xl js_or_def Let_def)

text \<open>
  The claim as stated, for every storage, fails: on a full storage that holds the
  preferences of an earlier visit, \<open>savePreferences\<close> catches the error of the write,
  and \<open>loadPreferences\<close> then installs the stored text size \<open>xl\<close>, not the text size
  \<open>large\<close> that was to be saved.
\<close>

theorem preferences_roundtrip_counterexample:
  "highContrast (state app_full) = JBool True \<and> textSize (state app_full) = JStr ''large''
   \<and> JStr ''large'' \<in> text_sizes
   \<and> json_roundtrip stringify_sample parse_sample
        (JObj [(''highContrast'', JBool True), (''textSize'', JStr ''large'')])
   \<and> savePreferences stringify_sample app_full
       = Returns (warned ''Could not save preferences to localStorage:'' QuotaExceededError app_full)
   \<and> loadPreferences parse_sample
         (warned ''Could not save preferences to localStorage:'' QuotaExceededError app_full)
       = Returns ((warned ''Could not save preferences to localStorage:'' QuotaExceededError app_full)
           \<lparr>state := \<lparr>highContrast = JBool True, textSize = JStr ''xl'', userPreferences = JNull\<rparr>\<rparr>)
   \<and> textSize (state ((warned ''Could not save preferences to localStorage:'' QuotaExceededError app_full)
           \<lparr>state := \<lparr>highContrast = JBool True, textSize = JStr ''xl'', userPreferences = JNull\<rparr>\<rparr>))
       \<noteq> textSize (state app_full)"
proof -
  have h1: "highContrast (state app_full) = JBool True"
    and h2: "textSize (state app_full) = JStr ''large''"
    by (simp_all add: app_full_def app_sample_def)
  have h3: "JStr ''large'' \<in> text_sizes" by (simp add: text_sizes_def)
  have h6: "json_roundtrip stringify_sample parse_sample
        (JObj [(''highContrast'', JBool True), (''textSize'', JStr ''large'')])"
    unfolding json_roundtrip_def using parse_stringify_preferences_sample by blast
  have ne: "textSize (state ((warned ''Could not save preferences to localStorage:'' QuotaExceededError app_full)
           \<lparr>state := \<lparr>highContrast = JBool True, textSize = JStr ''xl'', userPreferences = JNull\<rparr>\<rparr>))
       \<noteq> textSize (state app_full)"
    unfolding h2 by simp
  from h1 h2 h3 h6 savePreferences_full loadPreferences_stale ne show ?thesis by blast
qed

subsection \<open>The requests of the map\<close>

lemma request_shape_search: "request_shape (search_endpoint @ t) = Some search_endpoint"
  by (simp add: request_shape_def)

lemma request_shape_locations: "request_shape (locations_endpoint @ t) = Some locations_endpoint"
  by (simp add: request_shape_def search_endpoint_def locations_endpoint_def)

lemma request_shape_location: "request_shape (location_endpoint @ t) = Some location_endpoint"
  by (simp add: request_shape_def search_endpoint_def locations_endpoint_def location_endpoint_def)

lemma card_api_request_shapes: "card api_request_shapes = 3"
  by (simp add: api_request_shapes_def search_endpoint_def locations_endpoint_def
      location_endpoint_def)

lemma searchLocations_request:
  "searchLocations enc q p = Returns p' \<Longrightarrow>
   requests p' = requests p \<or> (\<exists>t. requests p' = requests p @ [search_endpoint @ t])"
  by (auto simp: searchLocations_def split: option.splits)

lemma loadLocations_request:
  "loadLocations query p = Returns p' \<Longrightarrow> \<exists>t. requests p' = requests p @ [locations_endpoint @ t]"
  by (cases "filter_params (currentFilters p)") (auto simp: loadLocations_def Let_def)

lemma showLocationDetails_request:
  "showLocationDetails nt i p = Returns p' \<Longrightarrow> \<exists>t. requests p' = requests p @ [location_endpoint @ t]"
  by (cases "to_text_num nt i") (auto simp: showLocationDetails_def)

text \<open>
  Claim C6, as amended. The map makes three kinds of requests, not two: the search
  (\<open>/api/search?q=\<close>), the listing (\<open>/api/locations?\<close>) and the details of one
  location (\<open>/api/locations/\<close> and its id). The set of request shapes has three
  elements, and every request that \<open>searchLocations\<close>, \<open>loadLocations\<close> and
  \<open>showLocationDetails\<close> make has the shape of its method.
\<close>

theorem three_request_shapes:
  "card api_request_shapes = 3
   \<and> (searchLocations encodeURIComponent q p = Returns p' \<longrightarrow>
        requests p' = requests p
        \<or> (\<exists>url. requests p' = requests p @ [url] \<and> request_shape url = Some search_endpoint))
   \<and> (loadLocations query p = Returns p' \<longrightarrow>
        (\<exists>url. requests p' = requests p @ [url] \<and> request_shape url = Some locations_endpoint))
   \<and> (showLocationDetails num_text locationId p = Returns p' \<longrightarrow>
        (\<exists>url. requests p' = requests p @ [url] \<and> request_shape url = Some location_endpoint))"
  using card_api_request_shapes searchLocations_request[of encodeURIComponent q p p']
    loadLocations_request[of query p p'] showLocationDetails_request[of num_text locationId p p']
    request_shape_search request_shape_locations request_shape_location
  by metis

lemma three_requests_eval:
  "requests_of three_requests = [''/api/search?q=cafe'', ''/api/locations?'', ''/api/locations/7'']"
  by (simp add: three_requests_def searchLocations_def loadLocations_def showLocationDetails_def
      page_sample_def encode_sample_def num_text_sample_def query_sample_def to_text_num_def
      filter_params_def default_filters_def search_endpoint_def locations_endpoint_def
      location_endpoint_def Let_def)

text \<open>
  The claim as stated fails: a search, a listing and a details request from the sample
  page are three requests of three different shapes.
\<close>

theorem two_request_shapes_counterexample:
  "requests_of three_requests = [''/api/search?q=cafe'', ''/api/locations?'', ''/api/locations/7'']
   \<and> card (request_shape ` set (requests_of three_requests)) \<noteq> 2"
  unfolding three_requests_eval
  by (simp add: request_shape_def search_endpoint_def locations_endpoint_def location_endpoint_def)

theorem three_request_shapes_witness:
  "searchLocations encode_sample ''cafe'' page_sample
     = Returns (page_sample\<lparr>requests := [''/api/search?q=cafe'']\<rparr>)
   \<and> request_shape ''/api/search?q=cafe'' = Some search_endpoint
   \<and> loadLocations query_sample page_sample
     = Returns (page_sample\<lparr>requests := [''/api/locations?'']\<rparr>)
   \<and> request_shape ''/api/locations?'' = Some locations_endpoint
   \<and> showLocationDetails num_text_sample (JNum (Finite 7)) page_sample
     = Returns (page_sample\<lparr>requests := [''/api/locations/7'']\<rparr>)
   \<and> request_shape ''/api/locations/7'' = Some location_endpoint
   \<and> card api_request_shapes = 3"
proof -
  have s: "searchLocations encode_sample ''cafe'' page_sample
     = Returns (page_sample\<lparr>requests := [''/api/search?q=cafe'']\<rparr>)"
    by (simp add: searchLocations_def page_sample_def encode_sample_def search_endpoint_def)
  have l: "loadLocations query_sample page_sample
     = Returns (page_sample\<lparr>requests := [''/api/locations?'']\<rparr>)"
    by (simp add: loadLocations_def page_sample_def query_sample_def filter_params_def
        default_filters_def locations_endpoint_def Let_def)
  have d: "showLocationDetails num_text_sample (JNum (Finite 7)) page_sample
     = Returns (page_sample\<lparr>requests := [''/api/locations/7'']\<rparr>)"
    by (simp add: showLocationDetails_def page_sample_def num_text_sample_def to_text_num_def
        location_endpoint_def)
  have r: "requests page_sample = []" by (simp add: page_sample_def)
  note t1 = three_request_shapes[of encode_sample "''cafe''" page_sample
      "page_sample\<lparr>requests := [''/api/search?q=cafe'']\<rparr>" query_sample num_text_sample
      "JNum (Finite 7)"]
  note t2 = three_request_shapes[of encode_sample "''cafe''" page_sample
      "page_sample\<lparr>requests := [''/api/locations?'']\<rparr>" query_sample num_text_sample
      "JNum (Finite 7)"]
  note t3 = three_request_shapes[of encode_sample "''cafe''" page_sample
      "page_sample\<lparr>requests := [''/api/locations/7'']\<rparr>" query_sample num_text_sample
      "JNum (Finite 7)"]
  from t1 s r have a: "request_shape ''/api/search?q=cafe'' = Some search_endpoint" by auto
  from t2 l r have b: "request_shape ''/api/locations?'' = Some locations_endpoint" by auto
  from t3 d r have c: "request_shape ''/api/locations/7'' = Some location_endpoint" by auto
  from t1 have "card api_request_shapes = 3" by (rule conjunct1)
  with s l d a b c show ?thesis by blast
qed

subsection \<open>Errors of the storage and of the network\<close>

lemma loadSavedFilters_returns: "\<exists>p'. loadSavedFilters parse p = Returns p'"
  by (auto simp: loadSavedFilters_def getItem_def JSON_parse_def split: option.splits)

lemma loadSavedFilters_read_error:
  "denied (storage p) \<Longrightarrow>
   loadSavedFilters parse p = Returns
     (p\<lparr>console := console p @ [ConsoleWarn ''Could not load filters from localStorage:'' SecurityError]\<rparr>)"
  by (simp add: loadSavedFilters_def getItem_def)

lemma loadSavedFilters_parse_error:
  "\<not> denied (storage p) \<Longrightarrow> items (storage p) storageKey = Some sv \<Longrightarrow> sv \<noteq> [] \<Longrightarrow>
   parse sv = None \<Longrightarrow>
   loadSavedFilters parse p = Returns
     (p\<lparr>console := console p @ [ConsoleWarn ''Could not load filters from localStorage:'' SyntaxError]\<rparr>)"
  by (simp add: loadSavedFilters_def getItem_def JSON_parse_def)

lemma js_or_default_not_throw:
  "v \<noteq> JUndefined \<Longrightarrow> v \<noteq> JNull \<Longrightarrow> \<exists>x. js_or (get_prop v k) (Val d) = Val x"
  by (cases v) (auto simp: js_or_def)


lemma saveFilters_caught:
  "(\<exists>p'. saveFilters sf p = Returns p')
   \<and> (write_fails (storage p) \<longrightarrow>
        (\<exists>e. saveFilters sf p = Returns (warned ''Could not save filters to localStorage:'' e p)))"
  by (auto simp: saveFilters_eq write_fails_def warned_def)

lemma savePreferences_caught:
  "(\<exists>a'. savePreferences sf a = Returns a')
   \<and> (write_fails (storage a) \<longrightarrow>
        (\<exists>e. savePreferences sf a = Returns (warned ''Could not save preferences to localStorage:'' e a)))"
  by (auto simp: savePreferences_eq write_fails_def warned_def)

lemma loadSavedFilters_caught:
  "(\<exists>p'. loadSavedFilters parse p = Returns p')
   \<and> (read_fails parse storageKey (storage p) \<longrightarrow>
        (\<exists>e. loadSavedFilters parse p = Returns (warned ''Could not load filters from localStorage:'' e p)))"
  using loadSavedFilters_returns[of parse p] loadSavedFilters_read_error[of p parse]
    loadSavedFilters_parse_error[of p _ parse]
  by (auto simp: read_fails_def warned_def split: option.splits)

lemma loadPreferences_steps:
  "loadPreferences parse a =
     try_catch (and_then (stored_step parse a) (attribute_step parse))
       (\<lambda>e s. Returns (warned ''Could not load preferences from localStorage:'' e s))"
  unfolding loadPreferences_def stored_step_def attribute_step_def warned_def
  by (cases "getItem (storage a) ''accessibility_preferences''") simp_all

lemma js_or_default:
  "js_or (get_prop v k) (Val d) = Throw TypeError \<and> (v = JUndefined \<or> v = JNull)
   \<or> (\<exists>x. js_or (get_prop v k) (Val d) = Val x \<and> v \<noteq> JUndefined \<and> v \<noteq> JNull)"
  by (cases v) (auto simp: js_or_def)

lemma stored_step_cases:
  "(\<exists>e. stored_step parse a = Raises e a)
   \<or> (\<exists>hc ts. stored_step parse a = Returns (a\<lparr>state := (state a)\<lparr>highContrast := hc, textSize := ts\<rparr>\<rparr>))"
proof (cases "denied (storage a)")
  case True
  then show ?thesis by (simp add: stored_step_def getItem_def)
next
  case nd: False
  show ?thesis
  proof (cases "items (storage a) ''accessibility_preferences''")
    case None
    have "a = a\<lparr>state := (state a)\<lparr>highContrast := highContrast (state a), textSize := textSize (state a)\<rparr>\<rparr>"
      by simp
    moreover have "stored_step parse a = Returns a"
      using nd None by (simp add: stored_step_def getItem_def)
    ultimately show ?thesis by metis
  next
    case (Some sv)
    show ?thesis
    proof (cases "sv = []")
      case True
      have "a = a\<lparr>state := (state a)\<lparr>highContrast := highContrast (state a), textSize := textSize (state a)\<rparr>\<rparr>"
        by simp
      moreover have "stored_step parse a = Returns a"
        using nd Some True by (simp add: stored_step_def getItem_def)
      ultimately show ?thesis by metis
    next
      case ne: False
      show ?thesis
      proof (cases "parse sv")
        case None
        then show ?thesis using nd Some ne by (simp add: stored_step_def getItem_def JSON_parse_def)
      next
        case (Some v)
        note it = \<open>items (storage a) ''accessibility_preferences'' = Some sv\<close>
        from js_or_default[of v "''highContrast''" "JBool False"]
             js_or_default[of v "''textSize''" "JStr ''normal''"]
        consider "js_or (get_prop v ''highContrast'') (Val (JBool False)) = Throw TypeError"
          | x y where "js_or (get_prop v ''highContrast'') (Val (JBool False)) = Val x"
              "js_or (get_prop v ''textSize'') (Val (JStr ''normal'')) = Val y"
          by blast
        then show ?thesis
        proof cases
          case 1
          then show ?thesis
            using nd it ne Some by (simp add: stored_step_def getItem_def JSON_parse_def)
        next
          case 2
          then have "stored_step parse a
              = Returns (a\<lparr>state := (state a)\<lparr>highContrast := x, textSize := y\<rparr>\<rparr>)"
            using nd it ne Some by (simp add: stored_step_def getItem_def JSON_parse_def Let_def)
          then show ?thesis by blast
        qed
      qed
    qed
  qed
qed

lemma stored_step_read_fails:
  "read_fails parse ''accessibility_preferences'' (storage a) \<Longrightarrow> \<exists>e. stored_step parse a = Raises e a"
  by (auto simp: read_fails_def stored_step_def getItem_def JSON_parse_def split: option.splits)

lemma attribute_step_cases:
  "(attribute_fails parse a2 \<and> attribute_step parse a2 = Raises SyntaxError a2)
   \<or> (\<not> attribute_fails parse a2 \<and>
       (\<exists>up. attribute_step parse a2 = Returns (a2\<lparr>state := (state a2)\<lparr>userPreferences := up\<rparr>\<rparr>)))"
proof (cases "user_preferences_data a2")
  case None
  have "a2 = a2\<lparr>state := (state a2)\<lparr>userPreferences := userPreferences (state a2)\<rparr>\<rparr>" by simp
  moreover have "attribute_step parse a2 = Returns a2" "\<not> attribute_fails parse a2"
    using None by (simp_all add: attribute_step_def attribute_fails_def)
  ultimately show ?thesis by metis
next
  case (Some d)
  show ?thesis
  proof (cases "d = []")
    case True
    have "a2 = a2\<lparr>state := (state a2)\<lparr>userPreferences := userPreferences (state a2)\<rparr>\<rparr>" by simp
    moreover have "attribute_step parse a2 = Returns a2" "\<not> attribute_fails parse a2"
      using Some True by (simp_all add: attribute_step_def attribute_fails_def)
    ultimately show ?thesis by metis
  next
    case False
    then show ?thesis
      using Some by (cases "parse d") (auto simp: attribute_step_def attribute_fails_def JSON_parse_def)
  qed
qed

lemma loadPreferences_caught:
  "(\<exists>a'. loadPreferences parse a = Returns a')
   \<and> (read_fails parse ''accessibility_preferences'' (storage a) \<longrightarrow>
        (\<exists>e. loadPreferences parse a
               = Returns (warned ''Could not load preferences from localStorage:'' e a)))
   \<and> (attribute_fails parse a \<longrightarrow>
        (\<exists>e hc ts. loadPreferences parse a
               = Returns (warned ''Could not load preferences from localStorage:'' e
                   (a\<lparr>state := (state a)\<lparr>highContrast := hc, textSize := ts\<rparr>\<rparr>))))"
proof (intro conjI impI)
  show "\<exists>a'. loadPreferences parse a = Returns a'"
    using stored_step_cases[of parse a]
  proof
    assume "\<exists>e. stored_step parse a = Raises e a"
    then show ?thesis by (auto simp: loadPreferences_steps)
  next
    assume "\<exists>hc ts. stored_step parse a = Returns (a\<lparr>state := (state a)\<lparr>highContrast := hc, textSize := ts\<rparr>\<rparr>)"
    then obtain a2 where a2: "stored_step parse a = Returns a2" by blast
    from attribute_step_cases[of parse a2] show ?thesis
      unfolding loadPreferences_steps a2 by auto
  qed
next
  assume "read_fails parse ''accessibility_preferences'' (storage a)"
  from stored_step_read_fails[OF this] show "\<exists>e. loadPreferences parse a
               = Returns (warned ''Could not load preferences from localStorage:'' e a)"
    by (auto simp: loadPreferences_steps)
next
  assume af: "attribute_fails parse a"
  let ?goal = "\<exists>e hc ts. loadPreferences parse a
               = Returns (warned ''Could not load preferences from localStorage:'' e
                   (a\<lparr>state := (state a)\<lparr>highContrast := hc, textSize := ts\<rparr>\<rparr>))"
  from stored_step_cases[of parse a] show ?goal
  proof
    assume "\<exists>e. stored_step parse a = Raises e a"
    then obtain e where "stored_step parse a = Raises e a" ..
    then have "loadPreferences parse a
        = Returns (warned ''Could not load preferences from localStorage:'' e a)"
      by (simp add: loadPreferences_steps)
    moreover have "a = a\<lparr>state := (state a)\<lparr>highContrast := highContrast (state a), textSize := textSize (state a)\<rparr>\<rparr>"
      by simp
    ultimately show ?goal by metis
  next
    assume "\<exists>hc ts. stored_step parse a = Returns (a\<lparr>state := (state a)\<lparr>highContrast := hc, textSize := ts\<rparr>\<rparr>)"
    then obtain hc ts where
      s: "stored_step parse a = Returns (a\<lparr>state := (state a)\<lparr>highContrast := hc, textSize := ts\<rparr>\<rparr>)"
      by blast
    let ?a2 = "a\<lparr>state := (state a)\<lparr>highContrast := hc, textSize := ts\<rparr>\<rparr>"
    have "attribute_fails parse ?a2" using af by (simp add: attribute_fails_def)
    with attribute_step_cases[of parse ?a2]
    have "attribute_step parse ?a2 = Raises SyntaxError ?a2" by blast
    then have "loadPreferences parse a
        = Returns (warned ''Could not load preferences from localStorage:'' SyntaxError ?a2)"
      unfolding loadPreferences_steps s by simp
    then show ?goal by blast
  qed
qed

lemma try_catch_never_raises: "try_catch r (\<lambda>e s. Returns (h e s)) \<noteq> Raises e' s'"
  by (cases r) auto

lemma settled_rejection:
  assumes "rejection reply = Some e"
  shows "searchLocations_settled reply p
           = Returns (set_search_content SearchError (errored ''Search error:'' e p))"
    and "loadLocations_settled accepts reply p
           = Returns (showNotification ''Error loading locations. Please try again.'' ''error''
               (errored ''Error loading locations:'' e p))"
    and "showLocationDetails_settled reply p
           = Returns (showNotification ''Error loading location details. Please try again.'' ''error''
               (errored ''Error loading location details:'' e p))"
  using assms
  by (cases reply; simp add: searchLocations_settled_def loadLocations_settled_def
        showLocationDetails_settled_def errored_def)+

lemma settled_never_raises:
  "searchLocations_settled reply p \<noteq> Raises e s"
  "loadLocations_settled accepts reply p \<noteq> Raises e s"
  "showLocationDetails_settled reply p \<noteq> Raises e s"
  unfolding searchLocations_settled_def loadLocations_settled_def showLocationDetails_settled_def
  by (rule try_catch_never_raises)+

lemma stored_step_attribute:
  "stored_step parse a = Returns a2 \<Longrightarrow> user_preferences_data a2 = user_preferences_data a"
  using stored_step_cases[of parse a] by auto

lemma loadPreferences_attribute_fails:
  assumes "attribute_fails parse a" and "stored_step parse a = Returns a2"
  shows "loadPreferences parse a
           = Returns (warned ''Could not load preferences from localStorage:'' SyntaxError a2)"
proof -
  have "attribute_fails parse a2"
    using assms(1) stored_step_attribute[OF assms(2)] by (simp add: attribute_fails_def)
  with attribute_step_cases[of parse a2]
  have "attribute_step parse a2 = Raises SyntaxError a2" by blast
  then show ?thesis unfolding loadPreferences_steps assms(2) by simp
qed

lemma stored_step_object:
  assumes "\<not> denied (storage a)"
    and "items (storage a) ''accessibility_preferences'' = Some sv" and "sv \<noteq> []"
    and "parse sv = Some (JObj ps)"
  shows "stored_step parse a
           = Returns (a\<lparr>state := (state a)
               \<lparr>highContrast := or_default (prop_of ps ''highContrast'') (JBool False),
                textSize := or_default (prop_of ps ''textSize'') (JStr ''normal'')\<rparr>\<rparr>)"
  using assms
  by (simp add: stored_step_def getItem_def JSON_parse_def js_or_def or_default_def prop_of_def
        Let_def)

lemma stored_step_nothing:
  assumes "\<not> denied (storage a)"
    and "items (storage a) ''accessibility_preferences'' = None
         \<or> items (storage a) ''accessibility_preferences'' = Some []"
  shows "stored_step parse a = Returns a"
  using assms by (auto simp: stored_step_def getItem_def)

lemma loadPreferences_attribute_fails_object:
  assumes "attribute_fails parse a" and "\<not> denied (storage a)"
    and "items (storage a) ''accessibility_preferences'' = Some sv" and "sv \<noteq> []"
    and "parse sv = Some (JObj ps)"
  shows "loadPreferences parse a
           = Returns (warned ''Could not load preferences from localStorage:'' SyntaxError
               (a\<lparr>state := (state a)
                 \<lparr>highContrast := or_default (prop_of ps ''highContrast'') (JBool False),
                  textSize := or_default (prop_of ps ''textSize'') (JStr ''normal'')\<rparr>\<rparr>))"
proof -
  have "stored_step parse a
           = Returns (a\<lparr>state := (state a)
               \<lparr>highContrast := or_default (prop_of ps ''highContrast'') (JBool False),
                textSize := or_default (prop_of ps ''textSize'') (JStr ''normal'')\<rparr>\<rparr>)"
    using assms(2-5) by (rule stored_step_object)
  from loadPreferences_attribute_fails[OF assms(1) this] show ?thesis .
qed

lemma loadPreferences_attribute_fails_nothing:
  assumes "attribute_fails parse a" and "\<not> denied (storage a)"
    and "items (storage a) ''accessibility_preferences'' = None
         \<or> items (storage a) ''accessibility_preferences'' = Some []"
  shows "loadPreferences parse a
           = Returns (warned ''Could not load preferences from localStorage:'' SyntaxError a)"
proof -
  have "stored_step parse a = Returns a"
    using assms(2,3) by (rule stored_step_nothing)
  from loadPreferences_attribute_fails[OF assms(1) this] show ?thesis .
qed

text \<open>
  Claim C5, as amended. \<open>saveFilters\<close>, \<open>loadSavedFilters\<close>, \<open>savePreferences\<close> and
  \<open>loadPreferences\<close> always return: no error of the storage or of \<open>JSON.parse\<close> leaves
  them. When the write to the storage throws, the two save methods only add a warning
  to the console. When reading the storage or parsing the stored text throws, the two
  load methods only add a warning to the console. When parsing the \<open>data-preferences\<close>
  attribute throws, \<open>loadPreferences\<close> adds a warning and leaves \<open>userPreferences\<close> as
  it was, and \<open>highContrast\<close> and \<open>textSize\<close> are as the stored preferences, read
  before, have set them: the state is the one after the first step of the method
  (\<open>stored_step\<close>), which is the state before when nothing is stored, and has the
  \<open>highContrast\<close> (or \<open>false\<close>) and the \<open>textSize\<close> (or \<open>normal\<close>) of the stored object
  when the stored text denotes an object. A rejected request of \<open>searchLocations\<close>, \<open>loadLocations\<close> or
  \<open>showLocationDetails\<close> ends in the \<open>catch\<close> handler, which logs the error and shows
  the static message (in the search box, or as a notification); no settled request
  throws.
\<close>

theorem errors_are_caught:
  fixes p :: page and a :: app
  shows
  "(\<exists>p'. saveFilters stringify p = Returns p')
   \<and> (write_fails (storage p) \<longrightarrow>
        (\<exists>e. saveFilters stringify p = Returns (warned ''Could not save filters to localStorage:'' e p)))
   \<and> (\<exists>p'. loadSavedFilters parse p = Returns p')
   \<and> (read_fails parse storageKey (storage p) \<longrightarrow>
        (\<exists>e. loadSavedFilters parse p = Returns (warned ''Could not load filters from localStorage:'' e p)))
   \<and> (\<exists>a'. savePreferences stringify a = Returns a')
   \<and> (write_fails (storage a) \<longrightarrow>
        (\<exists>e. savePreferences stringify a
               = Returns (warned ''Could not save preferences to localStorage:'' e a)))
   \<and> (\<exists>a'. loadPreferences parse a = Returns a')
   \<and> (read_fails parse ''accessibility_preferences'' (storage a) \<longrightarrow>
        (\<exists>e. loadPreferences parse a
               = Returns (warned ''Could not load preferences from localStorage:'' e a)))
   \<and> (attribute_fails parse a \<longrightarrow>
        (\<exists>e hc ts. loadPreferences parse a
               = Returns (warned ''Could not load preferences from localStorage:'' e
                   (a\<lparr>state := (state a)\<lparr>highContrast := hc, textSize := ts\<rparr>\<rparr>))))
   \<and> (attribute_fails parse a \<and> stored_step parse a = Returns a2 \<longrightarrow>
        loadPreferences parse a
          = Returns (warned ''Could not load preferences from localStorage:'' SyntaxError a2)
        \<and> userPreferences (state a2) = userPreferences (state a))
   \<and> (attribute_fails parse a \<and> \<not> denied (storage a)
        \<and> (items (storage a) ''accessibility_preferences'' = None
           \<or> items (storage a) ''accessibility_preferences'' = Some []) \<longrightarrow>
        loadPreferences parse a
          = Returns (warned ''Could not load preferences from localStorage:'' SyntaxError a))
   \<and> (attribute_fails parse a \<and> \<not> denied (storage a)
        \<and> items (storage a) ''accessibility_preferences'' = Some sv \<and> sv \<noteq> []
        \<and> parse sv = Some (JObj ps) \<longrightarrow>
        loadPreferences parse a
          = Returns (warned ''Could not load preferences from localStorage:'' SyntaxError
              (a\<lparr>state := (state a)
                \<lparr>highContrast := or_default (prop_of ps ''highContrast'') (JBool False),
                 textSize := or_default (prop_of ps ''textSize'') (JStr ''normal'')\<rparr>\<rparr>)))
   \<and> (rejection reply = Some err \<longrightarrow>
        searchLocations_settled reply p
          = Returns (set_search_content SearchError (errored ''Search error:'' err p))
        \<and> loadLocations_settled accepts reply p
          = Returns (showNotification ''Error loading locations. Please try again.'' ''error''
               (errored ''Error loading locations:'' err p))
        \<and> showLocationDetails_settled reply p
          = Returns (showNotification ''Error loading location details. Please try again.'' ''error''
               (errored ''Error loading location details:'' err p)))
   \<and> searchLocations_settled reply p \<noteq> Raises e s
   \<and> loadLocations_settled accepts reply p \<noteq> Raises e s
   \<and> showLocationDetails_settled reply p \<noteq> Raises e s"
proof -
  have stored: "userPreferences (state a2) = userPreferences (state a)"
    if "stored_step parse a = Returns a2"
    using that stored_step_cases[of parse a] by auto
  note sf = saveFilters_caught[of stringify p]
  note lf = loadSavedFilters_caught[of parse p]
  note sp = savePreferences_caught[of stringify a]
  note lp = loadPreferences_caught[of parse a]
  show ?thesis
    apply (intro conjI)
    subgoal using sf by blast
    subgoal using sf by blast
    subgoal using lf by blast
    subgoal using lf by blast
    subgoal using sp by blast
    subgoal using sp by blast
    subgoal using lp by blast
    subgoal using lp by blast
    subgoal using lp by blast
    subgoal using loadPreferences_attribute_fails[of parse a a2] stored by blast
    subgoal using loadPreferences_attribute_fails_nothing[of parse a] by blast
    subgoal using loadPreferences_attribute_fails_object[of parse a sv ps] by blast
    subgoal using settled_rejection[of reply err] by blast
    subgoal by (rule settled_never_raises)
    subgoal by (rule settled_never_raises)
    subgoal by (rule settled_never_raises)
    done
qed

text \<open>
  The claim as stated fails for \<open>loadPreferences\<close>: when the stored preferences load
  and the \<open>data-preferences\<close> attribute then fails to parse, the error is caught and
  logged, but \<open>highContrast\<close> and \<open>textSize\<close> have changed.
\<close>

theorem loadPreferences_not_atomic_counterexample:
  "attribute_fails parse_sample app_malformed
   \<and> loadPreferences parse_sample app_malformed
       = Returns (warned ''Could not load preferences from localStorage:'' SyntaxError
           (app_malformed\<lparr>state := \<lparr>highContrast = JBool True, textSize = JStr ''large'',
                                     userPreferences = JNull\<rparr>\<rparr>))
   \<and> state (app_malformed\<lparr>state := \<lparr>highContrast = JBool True, textSize = JStr ''large'',
                                     userPreferences = JNull\<rparr>\<rparr>) \<noteq> state app_malformed"
proof -
  have p1: "parse_sample ''{'' = None" by (simp add: parse_sample_def)
  have p2: \<open>parse_sample ''{"highContrast":true,"textSize":"large"}''
     = Some (JObj [(''highContrast'', JBool True), (''textSize'', JStr ''large'')])\<close>
    by (simp add: parse_sample_def)
  have af: "attribute_fails parse_sample app_malformed"
    by (simp add: attribute_fails_def app_malformed_def p1)
  have "stored_step parse_sample app_malformed
      = Returns (app_malformed\<lparr>state := \<lparr>highContrast = JBool True, textSize = JStr ''large'',
                                     userPreferences = JNull\<rparr>\<rparr>)"
    by (simp add: stored_step_def app_malformed_def getItem_def JSON_parse_def p2 js_or_def
        initial_app_state_def Let_def)
  moreover have "attribute_step parse_sample
        (app_malformed\<lparr>state := \<lparr>highContrast = JBool True, textSize = JStr ''large'',
                                     userPreferences = JNull\<rparr>\<rparr>)
      = Raises SyntaxError (app_malformed\<lparr>state := \<lparr>highContrast = JBool True, textSize = JStr ''large'',
                                     userPreferences = JNull\<rparr>\<rparr>)"
    by (simp add: attribute_step_def app_malformed_def JSON_parse_def p1)
  ultimately have "loadPreferences parse_sample app_malformed
       = Returns (warned ''Could not load preferences from localStorage:'' SyntaxError
           (app_malformed\<lparr>state := \<lparr>highContrast = JBool True, textSize = JStr ''large'',
                                     userPreferences = JNull\<rparr>\<rparr>))"
    by (simp add: loadPreferences_steps)
  moreover have "state (app_malformed\<lparr>state := \<lparr>highContrast = JBool True, textSize = JStr ''large'',
                                     userPreferences = JNull\<rparr>\<rparr>) \<noteq> state app_malformed"
    by (simp add: app_malformed_def initial_app_state_def)
  ultimately show ?thesis using af by blast
qed

theorem errors_are_caught_witness:
  "write_fails (storage page_denied)
   \<and> (\<exists>e. saveFilters stringify_sample page_denied
           = Returns (warned ''Could not save filters to localStorage:'' e page_denied))
   \<and> read_fails parse_sample storageKey (storage page_denied)
   \<and> (\<exists>e. loadSavedFilters parse_sample page_denied
           = Returns (warned ''Could not load filters from localStorage:'' e page_denied))
   \<and> write_fails (storage app_denied)
   \<and> (\<exists>e. savePreferences stringify_sample app_denied
           = Returns (warned ''Could not save preferences to localStorage:'' e app_denied))
   \<and> read_fails parse_sample ''accessibility_preferences'' (storage app_denied)
   \<and> (\<exists>e. loadPreferences parse_sample app_denied
           = Returns (warned ''Could not load preferences from localStorage:'' e app_denied))
   \<and> attribute_fails parse_sample app_malformed
   \<and> (\<exists>e hc ts. loadPreferences parse_sample app_malformed
           = Returns (warned ''Could not load preferences from localStorage:'' e
               (app_malformed\<lparr>state := (state app_malformed)\<lparr>highContrast := hc, textSize := ts\<rparr>\<rparr>)))
   \<and> loadPreferences parse_sample app_malformed
       = Returns (warned ''Could not load preferences from localStorage:'' SyntaxError
           (app_malformed\<lparr>state := (state app_malformed)
              \<lparr>highContrast := JBool True, textSize := JStr ''large''\<rparr>\<rparr>))
   \<and> rejection (FetchRejected NetworkError) = Some NetworkError
   \<and> loadLocations_settled (\<lambda>lat lng. True) (FetchRejected NetworkError) page_denied
       = Returns (showNotification ''Error loading locations. Please try again.'' ''error''
               (errored ''Error loading locations:'' NetworkError page_denied))"
proof -
  have w1: "write_fails (storage page_denied)" and r1: "read_fails parse_sample storageKey (storage page_denied)"
    by (simp_all add: write_fails_def read_fails_def page_denied_def)
  have w2: "write_fails (storage app_denied)"
    and r2: "read_fails parse_sample ''accessibility_preferences'' (storage app_denied)"
    by (simp_all add: write_fails_def read_fails_def app_denied_def)
  have af: "attribute_fails parse_sample app_malformed"
    by (simp add: attribute_fails_def app_malformed_def parse_sample_def)
  have rj: "rejection (FetchRejected NetworkError) = Some NetworkError" by simp
  note t1 = errors_are_caught[where p = page_denied and a = app_denied
      and stringify = stringify_sample and parse = parse_sample
      and reply = "FetchRejected NetworkError" and err = NetworkError
      and accepts = "\<lambda>lat lng. True"]
  note t2 = errors_are_caught[where p = page_denied and a = app_malformed
      and stringify = stringify_sample and parse = parse_sample
      and reply = "FetchRejected NetworkError" and err = NetworkError
      and accepts = "\<lambda>lat lng. True"
      and sv = \<open>''{"highContrast":true,"textSize":"large"}''\<close>
      and ps = "[(''highContrast'', JBool True), (''textSize'', JStr ''large'')]"]
  have st: "\<not> denied (storage app_malformed)"
    \<open>items (storage app_malformed) ''accessibility_preferences''
       = Some ''{"highContrast":true,"textSize":"large"}''\<close>
    by (simp_all add: app_malformed_def)
  have ne: \<open>''{"highContrast":true,"textSize":"large"}'' \<noteq> []\<close> by simp
  have ps: \<open>parse_sample ''{"highContrast":true,"textSize":"large"}''
     = Some (JObj [(''highContrast'', JBool True), (''textSize'', JStr ''large'')])\<close>
    by (simp add: parse_sample_def)
  note t2c = t2[THEN conjunct2, THEN conjunct2, THEN conjunct2, THEN conjunct2, THEN conjunct2,
      THEN conjunct2, THEN conjunct2, THEN conjunct2, THEN conjunct2, THEN conjunct2,
      THEN conjunct2, THEN conjunct1, THEN mp]
  have "loadPreferences parse_sample app_malformed
       = Returns (warned ''Could not load preferences from localStorage:'' SyntaxError
           (app_malformed\<lparr>state := (state app_malformed)
              \<lparr>highContrast := or_default (prop_of [(''highContrast'', JBool True),
                   (''textSize'', JStr ''large'')] ''highContrast'') (JBool False),
               textSize := or_default (prop_of [(''highContrast'', JBool True),
                   (''textSize'', JStr ''large'')] ''textSize'') (JStr ''normal'')\<rparr>\<rparr>))"
    by (rule t2c) (intro conjI af st ne ps)
  then have c7: "loadPreferences parse_sample app_malformed
       = Returns (warned ''Could not load preferences from localStorage:'' SyntaxError
           (app_malformed\<lparr>state := (state app_malformed)
              \<lparr>highContrast := JBool True, textSize := JStr ''large''\<rparr>\<rparr>))"
    by (simp add: or_default_def prop_of_def)
  from t1 w1 have c1: "\<exists>e. saveFilters stringify_sample page_denied
           = Returns (warned ''Could not save filters to localStorage:'' e page_denied)" by blast
  from t1 r1 have c2: "\<exists>e. loadSavedFilters parse_sample page_denied
           = Returns (warned ''Could not load filters from localStorage:'' e page_denied)" by blast
  from t1 w2 have c3: "\<exists>e. savePreferences stringify_sample app_denied
           = Returns (warned ''Could not save preferences to localStorage:'' e app_denied)" by blast
  from t1 r2 have c4: "\<exists>e. loadPreferences parse_sample app_denied
           = Returns (warned ''Could not load preferences from localStorage:'' e app_denied)" by blast
  from t2 af have c5: "\<exists>e hc ts. loadPreferences parse_sample app_malformed
           = Returns (warned ''Could not load preferences from localStorage:'' e
               (app_malformed\<lparr>state := (state app_malformed)\<lparr>highContrast := hc, textSize := ts\<rparr>\<rparr>))"
    by blast
  from t1 rj have c6: "loadLocations_settled (\<lambda>lat lng. True) (FetchRejected NetworkError) page_denied
       = Returns (showNotification ''Error loading locations. Please try again.'' ''error''
               (errored ''Error loading locations:'' NetworkError page_denied))" by blast
  from w1 c1 r1 c2 w2 c3 r2 c4 af c5 c7 rj c6 show ?thesis by blast
qed

subsection \<open>The required rule\<close>

lemma getFieldValidations_required:
  "has_required f \<or> dataset f ''required'' = Some ''true'' \<Longrightarrow>
   \<exists>rest. getFieldValidations f = \<lparr>rule = ''required'', param = JUndefined\<rparr> # rest"
  by (simp add: getFieldValidations_def)

lemma required_rule:
  "validationRules env ''required''
     = Some \<lparr>validator = (\<lambda>v param. Val (trim v \<noteq> [])),
             message = (\<lambda>param. Val ''This field is required.'')\<rparr>"
  by (simp add: validationRules_def)

text \<open>
  Claim C2. When a field carries the required rule (the attribute \<open>required\<close>, or
  \<open>data-required="true"\<close>) and the value that \<open>validateField\<close> checks trims to the empty
  string, \<open>validateField\<close> returns false and the one error message that it shows is
  \<open>This field is required.\<close>, or the text of \<open>data-required-message\<close> when the field has a
  non-empty one.
\<close>

theorem required_empty_field:
  assumes "has_required f \<or> dataset f ''required'' = Some ''true''"
    and "trim (field_text f) = []"
  shows "\<exists>view'. validateField env f view = Val (False, view')
           \<and> highlightClass \<in> container_classes view'
           \<and> error_messages view' =
               [case dataset f ''requiredMessage'' of
                  None \<Rightarrow> ''This field is required.''
                | Some customMessage \<Rightarrow>
                    if customMessage = [] then ''This field is required.'' else customMessage]"
proof -
  from getFieldValidations_required[OF assms(1)] obtain rest where
    "getFieldValidations f = \<lparr>rule = ''required'', param = JUndefined\<rparr> # rest" ..
  then show ?thesis
    unfolding validateField_def
    using assms(2)
    by (simp add: required_rule showFieldError_def clearFieldValidation_def highlightClass_def
          successClass_def Let_def split: option.splits)
qed

theorem required_empty_field_witness:
  "(has_required field_sample \<or> dataset field_sample ''required'' = Some ''true'')
   \<and> trim (field_text field_sample) = []
   \<and> (\<exists>view'. validateField env_sample field_sample view_sample = Val (False, view')
         \<and> error_messages view' = [''This field is required.''])"
proof -
  have h1: "has_required field_sample \<or> dataset field_sample ''required'' = Some ''true''"
    by (simp add: field_sample_def)
  have h2: "trim (field_text field_sample) = []"
    by (simp add: field_sample_def field_text_def trim_def is_js_space_def)
  have d: "dataset field_sample ''requiredMessage'' = None" by (simp add: field_sample_def)
  from required_empty_field[OF h1 h2, of env_sample view_sample] obtain view' where
    "validateField env_sample field_sample view_sample = Val (False, view')"
    "error_messages view' =
       [case dataset field_sample ''requiredMessage'' of
          None \<Rightarrow> ''This field is required.''
        | Some customMessage \<Rightarrow>
            if customMessage = [] then ''This field is required.'' else customMessage]"
    by blast
  then have "\<exists>view'. validateField env_sample field_sample view_sample = Val (False, view')
         \<and> error_messages view' = [''This field is required.'']"
    unfolding d by simp
  with h1 h2 show ?thesis by blast
qed

end
